theory Spec2Isabelle
  imports Main
begin

section \<open>JavaScript strings and thrown values\<close>

text \<open>
  A string is the UTF-8 encoding of the JavaScript string. The separators the code splits
  at (\<open>=\<close>, the newline, \<open>#\<close>) are ASCII, so splitting the bytes is splitting the string.
  \<open>toLowerCase\<close> is modelled on the ASCII letters (the addresses it is applied to are
  hexadecimal) and leaves every other byte alone.
\<close>

definition upper_letters :: string where
  "upper_letters = ''ABCDEFGHIJKLMNOPQRSTUVWXYZ''"

definition lower_letters :: string where
  "lower_letters = ''abcdefghijklmnopqrstuvwxyz''"

definition lower_char :: "char \<Rightarrow> char" where
  "lower_char c =
     (case map_of (zip upper_letters lower_letters) c of
        None \<Rightarrow> c
      | Some l \<Rightarrow> l)"

definition toLowerCase :: "string \<Rightarrow> string" where
  "toLowerCase s = map lower_char s"

definition is_upper :: "char \<Rightarrow> bool" where
  "is_upper c = (c \<in> set upper_letters)"

definition startsWith :: "string \<Rightarrow> string \<Rightarrow> bool" where
  "startsWith s p = (take (length p) s = p)"






text \<open>Truthiness of a possibly undefined string: \<open>undefined\<close> and \<open>""\<close> are falsy.\<close>

definition truthy :: "string option \<Rightarrow> bool" where
  "truthy v = (case v of None \<Rightarrow> False | Some s \<Rightarrow> s \<noteq> [])"

text \<open>
  A thrown value is an \<open>Error\<close> instance (with its \<open>name\<close> and \<open>message\<close>) or a primitive
  string. \<open>thrown_message\<close> is the template text of \<open>e.message\<close>, \<open>thrown_toString\<close> is
  \<open>String(e)\<close> (for an \<open>Error\<close>: \<open>Error.prototype.toString\<close>).
\<close>

datatype js_thrown = ErrorObject string string | Primitive string

definition new_Error :: "string \<Rightarrow> js_thrown" where
  "new_Error m = ErrorObject ''Error'' m"

fun thrown_message :: "js_thrown \<Rightarrow> string" where
  "thrown_message (ErrorObject n m) = m"
| "thrown_message (Primitive s) = ''undefined''"

fun thrown_toString :: "js_thrown \<Rightarrow> string" where
  "thrown_toString (ErrorObject n m) =
     (if n = [] then m else if m = [] then n else n @ '': '' @ m)"
| "thrown_toString (Primitive s) = s"

text \<open>What the console and the SDK see: console output and calls into the SDK, in order.\<close>

datatype console_arg = Str string | Thrown js_thrown

datatype identifier_kind = Ethereum | Passkey

text \<open>An SDK \<open>Identifier\<close>; the field \<open>ident\<close> is the source's \<open>identifier\<close>.\<close>

record Identifier =
  ident :: string
  identifierKind :: identifier_kind

record member =
  inboxId :: string

text \<open>
  What \<open>conv.members\<close> is: in the SDK an asynchronous method, that is a function, which
  \<open>for (... of ...)\<close> cannot iterate; or an array of members.
\<close>

datatype members_property = MembersMethod "member list" | MembersArray "member list"

record conversation =
  conv_ref :: nat
  members :: members_property

datatype event =
    ConsoleLog "console_arg list"
  | ConsoleError "console_arg list"
  | ClientCreate
  | ConversationsSync
  | ConversationsList
  | InboxStateFromInboxIds "string list"
  | GetDmByInboxId string
  | CanMessage "Identifier list" string
  | NewDm string
  | ConversationSend conversation string

section \<open>Environment resolver: \<open>validateEnvironment\<close>\<close>



















section \<open>Signer adapter: \<open>createUser\<close>, \<open>createSigner\<close>\<close>

record account =
  address :: string

record user =
  key :: string
  user_account :: account

record signer =
  signer_type :: string
  signer_user :: user

text \<open>
  \<open>privateKeyToAccount\<close> belongs to the wallet library; it is a parameter, and may throw.
  The wallet client built beside the account is used by \<open>signMessage\<close> only.
\<close>

definition createUser :: "(string \<Rightarrow> js_thrown + account) \<Rightarrow> string \<Rightarrow> js_thrown + user" where
  "createUser privateKeyToAccount k =
     (case privateKeyToAccount k of
        Inl e \<Rightarrow> Inl e
      | Inr a \<Rightarrow> Inr \<lparr>key = k, user_account = a\<rparr>)"

definition createSigner :: "(string \<Rightarrow> js_thrown + account) \<Rightarrow> string \<Rightarrow> js_thrown + signer" where
  "createSigner privateKeyToAccount k =
     (let sanitizedKey = (if startsWith k ''0x'' then k else ''0x'' @ k) in
      case createUser privateKeyToAccount sanitizedKey of
        Inl e \<Rightarrow> Inl e
      | Inr u \<Rightarrow> Inr \<lparr>signer_type = ''EOA'', signer_user = u\<rparr>)"

definition getIdentifier :: "signer \<Rightarrow> Identifier" where
  "getIdentifier sg =
     \<lparr>ident = toLowerCase (address (user_account (signer_user sg))),
      identifierKind = Ethereum\<rparr>"

section \<open>The messaging SDK, as the service sees it\<close>

text \<open>
  The SDK, the wallet library and the byte decoder are not part of the repository: every
  call the service makes into them is a field of \<open>sdk\<close>, returning its value or the
  value it throws. A client is an opaque handle.
\<close>

type_synonym client = nat

record client_options =
  dbEncryptionKey :: "nat list"
  env :: string
  dbPath_option :: string

record inbox_state =
  identifiers :: "Identifier list option"

text \<open>
  What \<open>send\<close> resolves to: in the SDK the id of the message, a string; or an object,
  with or without an \<open>id\<close>; or \<open>undefined\<close>. \<open>sent_id\<close> is the read \<open>sentMessage.id\<close>:
  a string has no such property.
\<close>

datatype sent = SentUndefined | SentId string | SentMessage "string option"

definition sent_id :: "sent \<Rightarrow> js_thrown + string option" where
  "sent_id v =
     (case v of
        SentUndefined \<Rightarrow>
          Inl (ErrorObject ''TypeError'' ''Cannot read properties of undefined'')
      | SentId s \<Rightarrow> Inr None
      | SentMessage i \<Rightarrow> Inr i)"

record sdk =
  privateKeyToAccount :: "string \<Rightarrow> js_thrown + account"
  fromString_hex :: "string \<Rightarrow> js_thrown + nat list"
  Client_create :: "signer \<Rightarrow> client_options \<Rightarrow> js_thrown + client"
  conversations_sync :: "client \<Rightarrow> js_thrown + unit"
  conversations_list :: "client \<Rightarrow> js_thrown + conversation list"
  inboxStateFromInboxIds :: "client \<Rightarrow> string list \<Rightarrow> js_thrown + inbox_state list"
  getDmByInboxId :: "client \<Rightarrow> string \<Rightarrow> js_thrown + conversation option"
  Client_canMessage :: "Identifier list \<Rightarrow> string \<Rightarrow> js_thrown + (string \<rightharpoonup> bool)"
  conversations_newDm :: "client \<Rightarrow> string \<Rightarrow> js_thrown + conversation"
  conversation_send :: "conversation \<Rightarrow> string \<Rightarrow> js_thrown + sent"

section \<open>The service object and its effects\<close>

record config =
  privateKey :: string
  encryptionKey :: string
  environment :: string
  dbPath :: string

text \<open>
  \<open>this.config\<close>, \<open>this.client\<close> (\<open>None\<close> is \<open>null\<close>), and the trace of console output
  and SDK calls made so far.
\<close>

record XMTPService =
  config :: config
  client :: "client option"
  trace :: "event list"

record relay_result =
  success :: bool
  messageId :: "string option"
  error :: "string option"

text \<open>
  An asynchronous method body is a function from the service state to the value it
  resolves to (\<open>Inr\<close>) or the value it throws (\<open>Inl\<close>), and the new state.
\<close>

type_synonym 'a io = "XMTPService \<Rightarrow> (js_thrown + 'a) \<times> XMTPService"

definition returnE :: "'a \<Rightarrow> 'a io" where
  "returnE x s = (Inr x, s)"

definition throwE :: "js_thrown \<Rightarrow> 'a io" where
  "throwE e s = (Inl e, s)"

definition bindE :: "'a io \<Rightarrow> ('a \<Rightarrow> 'b io) \<Rightarrow> 'b io" where
  "bindE m f s = (case m s of (Inl e, s') \<Rightarrow> (Inl e, s') | (Inr x, s') \<Rightarrow> f x s')"

definition catchE :: "'a io \<Rightarrow> (js_thrown \<Rightarrow> 'a io) \<Rightarrow> 'a io" where
  "catchE m h s = (case m s of (Inl e, s') \<Rightarrow> h e s' | (Inr x, s') \<Rightarrow> (Inr x, s'))"

definition liftE :: "js_thrown + 'a \<Rightarrow> 'a io" where
  "liftE r s = (r, s)"

definition emit :: "event \<Rightarrow> unit io" where
  "emit ev s = (Inr (), s\<lparr>trace := trace s @ [ev]\<rparr>)"

text \<open>A call into the SDK: recorded in the trace, then its value or its exception.\<close>

definition call :: "event \<Rightarrow> js_thrown + 'a \<Rightarrow> 'a io" where
  "call ev r s = (r, s\<lparr>trace := trace s @ [ev]\<rparr>)"

text \<open>Reading a property of \<open>this.client\<close>: a \<open>TypeError\<close> when it is \<open>null\<close>.\<close>

definition this_client :: "client io" where
  "this_client s =
     (case client s of
        None \<Rightarrow> (Inl (ErrorObject ''TypeError'' ''Cannot read properties of null''), s)
      | Some c \<Rightarrow> (Inr c, s))"

definition check_mark :: string where
  "check_mark = [CHR 0xE2, CHR 0x9C, CHR 0x93]"

section \<open>Messaging client lifecycle: \<open>initializeClient\<close>, \<open>close\<close>\<close>

definition getEncryptionKeyFromHex :: "sdk \<Rightarrow> string \<Rightarrow> js_thrown + nat list" where
  "getEncryptionKeyFromHex sdk hex = fromString_hex sdk hex"

definition initializeClient :: "sdk \<Rightarrow> unit io" where
  "initializeClient sdk s =
     (if client s \<noteq> None then (Inr (), s)
      else
        catchE
          (bindE (liftE (createSigner (privateKeyToAccount sdk) (privateKey (config s)))) (\<lambda>signer.
           bindE (liftE (getEncryptionKeyFromHex sdk (encryptionKey (config s)))) (\<lambda>key_bytes.
           bindE (call ClientCreate
                    (Client_create sdk signer
                       \<lparr>dbEncryptionKey = key_bytes,
                        env = environment (config s),
                        dbPath_option = dbPath (config s)\<rparr>)) (\<lambda>c.
           bindE (\<lambda>s1. (Inr (), s1\<lparr>client := Some c\<rparr>)) (\<lambda>_.
           emit (ConsoleLog [Str (check_mark @ '' XMTP client initialized'')]))))))
          (\<lambda>error.
           bindE (emit (ConsoleError [Str ''Error initializing XMTP client:'', Thrown error])) (\<lambda>_.
           throwE (new_Error (''Failed to initialize XMTP client: '' @ thrown_toString error))))
          s)"


section \<open>Address-to-inbox resolution: \<open>getInboxIdFromAddress\<close>\<close>

text \<open>The innermost loop: does some identifier equal the address, case-insensitively?\<close>

fun scan_identifiers :: "string \<Rightarrow> Identifier list \<Rightarrow> bool" where
  "scan_identifiers addr [] = False"
| "scan_identifiers addr (i # rest) =
     (if toLowerCase (ident i) = toLowerCase addr then True
      else scan_identifiers addr rest)"

text \<open>
  \<open>memberState[0]?.identifiers\<close> and the loop over it: no state, or a state without
  identifiers, matches nothing.
\<close>

definition member_matches :: "string \<Rightarrow> inbox_state list \<Rightarrow> bool" where
  "member_matches addr memberState =
     (case memberState of
        [] \<Rightarrow> False
      | st # _ \<Rightarrow>
          (case identifiers st of
             None \<Rightarrow> False
           | Some ids \<Rightarrow> scan_identifiers addr ids))"

text \<open>
  The loop over \<open>conv.members\<close>: one \<open>inboxStateFromInboxIds\<close> call per member, returning
  the member's inbox id at the first match.
\<close>

fun scan_members :: "sdk \<Rightarrow> string \<Rightarrow> member list \<Rightarrow> (string option) io" where
  "scan_members sdk addr [] s = (Inr None, s)"
| "scan_members sdk addr (m # ms) s =
     (case this_client s of
        (Inl e, s1) \<Rightarrow> (Inl e, s1)
      | (Inr c, s1) \<Rightarrow>
          (case call (InboxStateFromInboxIds [inboxId m])
                  (inboxStateFromInboxIds sdk c [inboxId m]) s1 of
             (Inl e, s2) \<Rightarrow> (Inl e, s2)
           | (Inr memberState, s2) \<Rightarrow>
               if member_matches addr memberState
               then (Inr (Some (inboxId m)), s2)
               else scan_members sdk addr ms s2))"

text \<open>The loop over the conversations; reading the members of each to iterate them.\<close>

fun scan_conversations :: "sdk \<Rightarrow> string \<Rightarrow> conversation list \<Rightarrow> (string option) io" where
  "scan_conversations sdk addr [] s = (Inr None, s)"
| "scan_conversations sdk addr (conv # convs) s =
     (case members conv of
        MembersMethod ms \<Rightarrow>
          (Inl (ErrorObject ''TypeError'' ''conv.members is not iterable''), s)
      | MembersArray ms \<Rightarrow>
          (case scan_members sdk addr ms s of
             (Inl e, s1) \<Rightarrow> (Inl e, s1)
           | (Inr (Some inbox), s1) \<Rightarrow> (Inr (Some inbox), s1)
           | (Inr None, s1) \<Rightarrow> scan_conversations sdk addr convs s1))"

definition client_guard :: "unit io" where
  "client_guard s =
     (if client s = None then throwE (new_Error ''XMTP client not initialized'') s
      else returnE () s)"

definition getInboxIdFromAddress_try :: "sdk \<Rightarrow> string \<Rightarrow> (string option) io" where
  "getInboxIdFromAddress_try sdk addr =
     bindE (initializeClient sdk) (\<lambda>_.
     bindE client_guard (\<lambda>_.
     bindE this_client (\<lambda>c.
     bindE (call ConversationsList (conversations_list sdk c)) (\<lambda>conversations.
     scan_conversations sdk addr conversations))))"

definition getInboxIdFromAddress :: "sdk \<Rightarrow> string \<Rightarrow> (string option) io" where
  "getInboxIdFromAddress sdk addr =
     catchE (getInboxIdFromAddress_try sdk addr)
       (\<lambda>error.
        bindE (emit (ConsoleError
                 [Str (''Error getting inbox ID for address '' @ addr @ '':''),
                  Thrown error])) (\<lambda>_.
        returnE None))"

section \<open>Relay pipeline: \<open>sendMessage\<close>\<close>

text \<open>The \<open>if (!conversation)\<close> block: capability check, then creation from the raw address.\<close>

definition create_conversation :: "sdk \<Rightarrow> string \<Rightarrow> conversation io" where
  "create_conversation sdk recipientAddress =
     bindE (\<lambda>s. call (CanMessage
                        [\<lparr>ident = toLowerCase recipientAddress, identifierKind = Ethereum\<rparr>]
                        (environment (config s)))
                 (Client_canMessage sdk
                        [\<lparr>ident = toLowerCase recipientAddress, identifierKind = Ethereum\<rparr>]
                        (environment (config s))) s) (\<lambda>canReceive.
     if canReceive (toLowerCase recipientAddress) \<noteq> Some True
     then throwE (new_Error (''Address '' @ recipientAddress @ '' cannot receive XMTP messages''))
     else
       catchE
         (bindE this_client (\<lambda>c.
          call (NewDm recipientAddress) (conversations_newDm sdk c recipientAddress)))
         (\<lambda>dmError.
          throwE (new_Error (''Cannot create conversation with '' @ recipientAddress
            @ ''. They may need to be active on XMTP first. Original error: ''
            @ thrown_message dmError))))"

text \<open>The lookup of an existing conversation: the scan, then \<open>getDmByInboxId\<close>.\<close>

definition find_conversation :: "sdk \<Rightarrow> string \<Rightarrow> (conversation option) io" where
  "find_conversation sdk recipientAddress =
     bindE (getInboxIdFromAddress sdk recipientAddress) (\<lambda>recipientInboxId.
     if truthy recipientInboxId
     then bindE this_client (\<lambda>c.
          call (GetDmByInboxId (the recipientInboxId))
            (getDmByInboxId sdk c (the recipientInboxId)))
     else returnE None)"

text \<open>
  The send through the conversation, the log line, and the success result with
  \<open>sentMessage.id\<close>.
\<close>

definition deliver :: "sdk \<Rightarrow> string \<Rightarrow> string \<Rightarrow> conversation \<Rightarrow> relay_result io" where
  "deliver sdk recipientAddress message conversation =
     bindE (call (ConversationSend conversation message)
              (conversation_send sdk conversation message)) (\<lambda>sentMessage.
     bindE (emit (ConsoleLog [Str (check_mark @ '' Message sent to '' @ recipientAddress)])) (\<lambda>_.
     bindE (liftE (sent_id sentMessage)) (\<lambda>sent_message_id.
     returnE \<lparr>success = True, messageId = sent_message_id, error = None\<rparr>)))"

definition sendMessage_try :: "sdk \<Rightarrow> string \<Rightarrow> string \<Rightarrow> relay_result io" where
  "sendMessage_try sdk recipientAddress message =
     bindE (initializeClient sdk) (\<lambda>_.
     bindE client_guard (\<lambda>_.
     bindE this_client (\<lambda>c0.
     bindE (call ConversationsSync (conversations_sync sdk c0)) (\<lambda>_.
     bindE (find_conversation sdk recipientAddress) (\<lambda>found.
     bindE (case found of
              Some conversation \<Rightarrow> returnE conversation
            | None \<Rightarrow> create_conversation sdk recipientAddress) (\<lambda>conversation.
     deliver sdk recipientAddress message conversation))))))"

text \<open>\<open>error instanceof Error ? error.message : String(error)\<close>\<close>

fun errorMessage :: "js_thrown \<Rightarrow> string" where
  "errorMessage (ErrorObject n m) = m"
| "errorMessage (Primitive s) = s"

definition sendMessage :: "sdk \<Rightarrow> string \<Rightarrow> string \<Rightarrow> relay_result io" where
  "sendMessage sdk recipientAddress message =
     catchE (sendMessage_try sdk recipientAddress message)
       (\<lambda>error.
        bindE (emit (ConsoleError
                 [Str (''Error sending message to '' @ recipientAddress @ '':''),
                  Str (errorMessage error)])) (\<lambda>_.
        returnE \<lparr>success = False, messageId = None, error = Some (errorMessage error)\<rparr>))"

section \<open>Bus listener: \<open>handleMessage\<close>\<close>

datatype json =
    JNull
  | JBool bool
  | JNumber int
  | JString string
  | JArray "json list"
  | JObject "(string \<times> json) list"

definition glyph_envelope :: string where
  "glyph_envelope = [CHR 0xF0, CHR 0x9F, CHR 0x93, CHR 0xA8]"

definition glyph_clock :: string where
  "glyph_clock = [CHR 0xF0, CHR 0x9F, CHR 0x95, CHR 0x92]"

definition glyph_antenna :: string where
  "glyph_antenna = [CHR 0xF0, CHR 0x9F, CHR 0x93, CHR 0xA1]"

definition glyph_lens :: string where
  "glyph_lens = [CHR 0xF0, CHR 0x9F, CHR 0x94, CHR 0x8D]"

definition glyph_cross :: string where
  "glyph_cross = [CHR 0xE2, CHR 0x9D, CHR 0x8C]"

text \<open>
  \<open>JSON.parse\<close>, \<open>JSON.stringify(_, null, 2)\<close> and the clock are parameters. The handler
  holds no reference to the service: all it does is write to the console.
\<close>

definition handleMessage ::
  "(string \<Rightarrow> js_thrown + json) \<Rightarrow> (json \<Rightarrow> string) \<Rightarrow> string \<Rightarrow> string \<Rightarrow> string
     \<Rightarrow> event list \<Rightarrow> event list" where
  "handleMessage JSON_parse JSON_stringify receivedAt message channel out =
     out
     @ [ConsoleLog [Str (glyph_envelope
          @ '' ==================== ETHEREUM MESSAGE ===================='')],
        ConsoleLog [Str (glyph_clock @ '' Received: '' @ receivedAt)],
        ConsoleLog [Str (glyph_antenna @ '' Channel: '' @ channel)],
        ConsoleLog [Str (glyph_lens @ '' RAW MESSAGE:''), Str message]]
     @ (case JSON_parse message of
          Inr ethereumMessage \<Rightarrow>
            [ConsoleLog [Str (glyph_lens @ '' PARSED MESSAGE:''),
                         Str (JSON_stringify ethereumMessage)]]
        | Inl parseError \<Rightarrow>
            [ConsoleError [Str (glyph_cross @ '' JSON parsing error:''),
                           Str (thrown_message parseError)]])
     @ [ConsoleLog [Str (''========================================================''
          @ [CHR 0x0A])]]"

section \<open>Notions used to state the properties\<close>

subsection \<open>The fallback file, as described\<close>














subsection \<open>The relay pipeline\<close>

text \<open>
  The construction steps of \<open>initializeClient\<close>, without the cache: signer, key bytes,
  \<open>Client.create\<close>.
\<close>

definition construct :: "sdk \<Rightarrow> XMTPService \<Rightarrow> js_thrown + client" where
  "construct sdk s =
     (case createSigner (privateKeyToAccount sdk) (privateKey (config s)) of
        Inl e \<Rightarrow> Inl e
      | Inr sg \<Rightarrow>
          (case getEncryptionKeyFromHex sdk (encryptionKey (config s)) of
             Inl e \<Rightarrow> Inl e
           | Inr kb \<Rightarrow>
               Client_create sdk sg
                 \<lparr>dbEncryptionKey = kb, env = environment (config s),
                  dbPath_option = dbPath (config s)\<rparr>))"

text \<open>A member whose inbox state lists the address (compared in lower case).\<close>

definition has_identifier :: "sdk \<Rightarrow> client \<Rightarrow> string \<Rightarrow> member \<Rightarrow> bool" where
  "has_identifier sdk c addr m =
     (case inboxStateFromInboxIds sdk c [inboxId m] of
        Inl _ \<Rightarrow> False
      | Inr [] \<Rightarrow> False
      | Inr (st # _) \<Rightarrow>
          (case identifiers st of
             None \<Rightarrow> False
           | Some ids \<Rightarrow> list_ex (\<lambda>i. toLowerCase (ident i) = toLowerCase addr) ids))"

text \<open>The capability query \<open>sendMessage\<close> makes for an address, as an event.\<close>

definition capability_event :: "XMTPService \<Rightarrow> string \<Rightarrow> event" where
  "capability_event s addr =
     CanMessage [\<lparr>ident = toLowerCase addr, identifierKind = Ethereum\<rparr>]
       (environment (config s))"

definition capability :: "sdk \<Rightarrow> XMTPService \<Rightarrow> string \<Rightarrow> js_thrown + (string \<rightharpoonup> bool)" where
  "capability sdk s addr =
     Client_canMessage sdk [\<lparr>ident = toLowerCase addr, identifierKind = Ethereum\<rparr>]
       (environment (config s))"

text \<open>Kinds of events: a capability check, a conversation creation, a send.\<close>

fun is_capability_check :: "event \<Rightarrow> bool" where
  "is_capability_check (CanMessage ids e) = True"
| "is_capability_check _ = False"

fun is_creation :: "event \<Rightarrow> bool" where
  "is_creation (NewDm a) = True"
| "is_creation _ = False"

fun is_send :: "event \<Rightarrow> bool" where
  "is_send (ConversationSend cv m) = True"
| "is_send _ = False"

text \<open>
  A failure result and its log line; the result of the last steps, the send through a
  conversation and the read of the id, and what they log.
\<close>

definition failure :: "string \<Rightarrow> relay_result" where
  "failure e = \<lparr>success = False, messageId = None, error = Some e\<rparr>"

definition failure_log :: "string \<Rightarrow> string \<Rightarrow> event" where
  "failure_log addr e = ConsoleError [Str (''Error sending message to '' @ addr @ '':''), Str e]"

definition send_result :: "sdk \<Rightarrow> conversation \<Rightarrow> string \<Rightarrow> relay_result" where
  "send_result sdk cv msg =
     (case conversation_send sdk cv msg of
        Inl e \<Rightarrow> failure (errorMessage e)
      | Inr sent \<Rightarrow>
          (case sent_id sent of
             Inl e \<Rightarrow> failure (errorMessage e)
           | Inr i \<Rightarrow> \<lparr>success = True, messageId = i, error = None\<rparr>))"

definition send_logs :: "sdk \<Rightarrow> string \<Rightarrow> conversation \<Rightarrow> string \<Rightarrow> event list" where
  "send_logs sdk addr cv msg =
     (case conversation_send sdk cv msg of
        Inl e \<Rightarrow> [failure_log addr (errorMessage e)]
      | Inr sent \<Rightarrow>
          ConsoleLog [Str (check_mark @ '' Message sent to '' @ addr)]
          # (case sent_id sent of
               Inl e \<Rightarrow> [failure_log addr (errorMessage e)]
             | Inr i \<Rightarrow> []))"

text \<open>
  An event that is neither a capability check, nor a creation, nor a send; the events a
  call added to the trace; and a step that keeps the client and the configuration and adds
  only such events.
\<close>

definition quiet :: "event \<Rightarrow> bool" where
  "quiet ev = (\<not> is_capability_check ev \<and> \<not> is_creation ev \<and> \<not> is_send ev)"

definition new_events :: "XMTPService \<Rightarrow> XMTPService \<Rightarrow> event list" where
  "new_events s s' = drop (length (trace s)) (trace s')"

definition quiet_step :: "XMTPService \<Rightarrow> XMTPService \<Rightarrow> bool" where
  "quiet_step s s' =
     (client s' = client s \<and> config s' = config s
      \<and> take (length (trace s)) (trace s') = trace s
      \<and> list_all quiet (new_events s s'))"

text \<open>
  Whether every exception the SDK throws from a call that \<open>sendMessage\<close> does not wrap
  (\<open>sync\<close>, \<open>getDmByInboxId\<close>, \<open>canMessage\<close>, \<open>send\<close>) carries a non-empty message.
\<close>

definition throws_with_message :: "sdk \<Rightarrow> bool" where
  "throws_with_message sdk =
     ((\<forall>c e. conversations_sync sdk c = Inl e \<longrightarrow> errorMessage e \<noteq> [])
      \<and> (\<forall>c i e. getDmByInboxId sdk c i = Inl e \<longrightarrow> errorMessage e \<noteq> [])
      \<and> (\<forall>ids en e. Client_canMessage sdk ids en = Inl e \<longrightarrow> errorMessage e \<noteq> [])
      \<and> (\<forall>cv m e. conversation_send sdk cv m = Inl e \<longrightarrow> errorMessage e \<noteq> []))"

subsection \<open>A concrete network\<close>

text \<open>
  One group conversation with the inboxes \<open>inbox-a\<close> and \<open>inbox-b\<close>; \<open>inbox-b\<close> lists the
  address \<open>0xAbC0\<close> and has a one-to-one conversation. Every address but \<open>0xeee0\<close>
  can receive messages.
\<close>

definition member_a :: member where
  "member_a = \<lparr>inboxId = ''inbox-a''\<rparr>"

definition member_b :: member where
  "member_b = \<lparr>inboxId = ''inbox-b''\<rparr>"

definition group0 :: conversation where
  "group0 = \<lparr>conv_ref = 1, members = MembersArray [member_a, member_b]\<rparr>"

definition dm_b :: conversation where
  "dm_b = \<lparr>conv_ref = 2, members = MembersArray [member_b]\<rparr>"

definition dm_new :: conversation where
  "dm_new = \<lparr>conv_ref = 3, members = MembersArray []\<rparr>"

definition sdk0 :: sdk where
  "sdk0 =
     \<lparr>privateKeyToAccount = (\<lambda>pk. Inr \<lparr>address = ''0xAbC1''\<rparr>),
      fromString_hex = (\<lambda>h. Inr [1, 2]),
      Client_create = (\<lambda>sg opts. Inr 7),
      conversations_sync = (\<lambda>c. Inr ()),
      conversations_list = (\<lambda>c. Inr [group0]),
      inboxStateFromInboxIds = (\<lambda>c ids.
        if ids = [''inbox-a'']
        then Inr [\<lparr>identifiers = Some [\<lparr>ident = ''0xDEF0'', identifierKind = Ethereum\<rparr>]\<rparr>]
        else if ids = [''inbox-b'']
        then Inr [\<lparr>identifiers = Some [\<lparr>ident = ''0xAbC0'', identifierKind = Ethereum\<rparr>]\<rparr>]
        else Inr []),
      getDmByInboxId = (\<lambda>c i. if i = ''inbox-b'' then Inr (Some dm_b) else Inr None),
      Client_canMessage = (\<lambda>ids en. Inr (map_of (map (\<lambda>i. (ident i, ident i \<noteq> ''0xeee0'')) ids))),
      conversations_newDm = (\<lambda>c a. Inr dm_new),
      conversation_send = (\<lambda>cv m. Inr (SentMessage (Some ''msg-1'')))\<rparr>"

definition config0 :: config where
  "config0 = \<lparr>privateKey = ''ab12'', encryptionKey = ''0102'', environment = ''dev'',
              dbPath = ''./data/xmtp_database''\<rparr>"

definition service0 :: XMTPService where
  "service0 = \<lparr>config = config0, client = None, trace = []\<rparr>"

definition service1 :: XMTPService where
  "service1 =
     \<lparr>config = config0, client = Some 7,
      trace = [ClientCreate, ConsoleLog [Str (check_mark @ '' XMTP client initialized'')]]\<rparr>"

text \<open>The same network with one call failing.\<close>

definition sdk_sync_fails :: sdk where
  "sdk_sync_fails = sdk0\<lparr>conversations_sync := (\<lambda>c. Inl (new_Error []))\<rparr>"

definition sdk_lookup_fails :: sdk where
  "sdk_lookup_fails =
     sdk0\<lparr>inboxStateFromInboxIds := (\<lambda>c ids.
        if ids = [''inbox-a''] then Inl (new_Error ''lookup failed'')
        else inboxStateFromInboxIds sdk0 c ids)\<rparr>"

definition sdk_newDm_fails :: sdk where
  "sdk_newDm_fails = sdk0\<lparr>conversations_newDm := (\<lambda>c a. Inl (new_Error ''inbox not found''))\<rparr>"

definition sdk_send_fails :: sdk where
  "sdk_send_fails = sdk0\<lparr>conversation_send := (\<lambda>cv m. Inl (new_Error ''network down''))\<rparr>"

definition sdk_create_fails :: sdk where
  "sdk_create_fails = sdk0\<lparr>Client_create := (\<lambda>sg opts. Inl (new_Error ''bad key''))\<rparr>"

definition sdk_sync_throws :: sdk where
  "sdk_sync_throws = sdk0\<lparr>conversations_sync := (\<lambda>c. Inl (Primitive ''timeout''))\<rparr>"

definition sdk_getDm_fails :: sdk where
  "sdk_getDm_fails = sdk0\<lparr>getDmByInboxId := (\<lambda>c i. Inl (new_Error ''database locked''))\<rparr>"

definition sdk_canMessage_fails :: sdk where
  "sdk_canMessage_fails =
     sdk0\<lparr>Client_canMessage := (\<lambda>ids en. Inl (new_Error ''network unreachable''))\<rparr>"

text \<open>
  The same network with the conversations as the SDK has them: \<open>members\<close> is a method of the
  conversation, not an array. And the same network with \<open>send\<close> as the SDK has it: it
  resolves to the id of the message, a string.
\<close>

definition group_method :: conversation where
  "group_method = \<lparr>conv_ref = 1, members = MembersMethod [member_a, member_b]\<rparr>"

definition sdk_members_method :: sdk where
  "sdk_members_method = sdk0\<lparr>conversations_list := (\<lambda>c. Inr [group_method])\<rparr>"

definition sdk_send_id :: sdk where
  "sdk_send_id = sdk0\<lparr>conversation_send := (\<lambda>cv m. Inr (SentId ''msg-1''))\<rparr>"

subsection \<open>A concrete bus message\<close>

definition payload0 :: string where
  "payload0 = [CHR 0x7B, CHR 0x22] @ ''ethereumAddress'' @ [CHR 0x22, CHR 0x3A, CHR 0x22]
     @ ''0xABC0'' @ [CHR 0x22, CHR 0x2C, CHR 0x22] @ ''message'' @ [CHR 0x22, CHR 0x3A, CHR 0x22]
     @ ''hi'' @ [CHR 0x22, CHR 0x7D]"

definition request0 :: json where
  "request0 = JObject [(''ethereumAddress'', JString ''0xABC0''), (''message'', JString ''hi'')]"

text \<open>A parser and a printer that know this one message.\<close>

definition parse0 :: "string \<Rightarrow> js_thrown + json" where
  "parse0 text =
     (if text = payload0 then Inr request0
      else Inl (ErrorObject ''SyntaxError'' ''Unexpected token''))"

definition stringify0 :: "json \<Rightarrow> string" where
  "stringify0 j = (if j = request0 then payload0 else ''null'')"

text \<open>The service after the sync and the scan of both members of the group.\<close>

definition service_synced :: XMTPService where
  "service_synced = service1\<lparr>trace := trace service1 @ [ConversationsSync]\<rparr>"

definition service_scanned :: XMTPService where
  "service_scanned =
     service1\<lparr>trace := trace service1 @
       [ConversationsSync, ConversationsList,
        InboxStateFromInboxIds [''inbox-a''], InboxStateFromInboxIds [''inbox-b'']]\<rparr>"

definition service_found :: XMTPService where
  "service_found =
     service_scanned\<lparr>trace := trace service_scanned @ [GetDmByInboxId ''inbox-b'']\<rparr>"

definition service_scan_failed :: XMTPService where
  "service_scan_failed =
     service1\<lparr>trace := trace service1 @
       [ConversationsSync, ConversationsList, InboxStateFromInboxIds [''inbox-a'']]\<rparr>"

section \<open>Properties\<close>

subsection \<open>Signer adapter\<close>

lemma up_low_disj: "set lower_letters \<inter> set upper_letters = {}"
  by (simp add: lower_letters_def upper_letters_def)

lemma len_eq: "length upper_letters = length lower_letters"
  by (simp add: lower_letters_def upper_letters_def)

lemma lower_char_not_upper: "\<not> is_upper (lower_char c)"
proof (cases "map_of (zip upper_letters lower_letters) c")
  case None
  then have "c \<notin> set upper_letters"
    using len_eq by (simp add: map_of_eq_None_iff map_fst_zip flip: set_map)
  with None show ?thesis by (simp add: lower_char_def is_upper_def)
next
  case (Some l)
  then have "(c, l) \<in> set (zip upper_letters lower_letters)"
    by (rule map_of_SomeD)
  then have "l \<in> set lower_letters"
    by (rule set_zip_rightD)
  then have "l \<notin> set upper_letters"
    using up_low_disj by blast
  with Some show ?thesis by (simp add: lower_char_def is_upper_def)
qed

lemma toLowerCase_no_upper: "\<forall>c\<in>set (toLowerCase s). \<not> is_upper c"
  by (simp add: toLowerCase_def lower_char_not_upper)

lemma startsWith_0x: "startsWith (''0x'' @ k) ''0x''"
  by (simp add: startsWith_def)

lemma createSigner_add_prefix:
  "\<not> startsWith k ''0x'' \<Longrightarrow> createSigner pk k = createSigner pk (''0x'' @ k)"
  unfolding createSigner_def Let_def using startsWith_0x [of k]
  by (simp only: if_True if_False)

lemma createSigner_Inr:
  "createSigner pk k = Inr sg \<Longrightarrow>
     \<exists>a. pk (if startsWith k ''0x'' then k else ''0x'' @ k) = Inr a \<and> user_account (signer_user sg) = a"
  unfolding createSigner_def createUser_def Let_def
  by (cases "pk (if startsWith k ''0x'' then k else ''0x'' @ k)") auto

text \<open>
  Claim C7. For a key that does not start with \<open>0x\<close>, the signer's identifier (or the
  exception of the derivation) is the one obtained for the key with \<open>0x\<close> prepended;
  the identifier is the lower-cased address of the account derived from the prefixed key,
  and holds no upper-case letter.
\<close>

theorem createSigner_prefix:
  assumes "\<not> startsWith k ''0x''"
  shows "map_sum id getIdentifier (createSigner pk k)
           = map_sum id getIdentifier (createSigner pk (''0x'' @ k))
       \<and> (\<forall>sg. createSigner pk k = Inr sg \<longrightarrow>
             (\<exists>a. pk (''0x'' @ k) = Inr a
                \<and> ident (getIdentifier sg) = toLowerCase (address a))
           \<and> (\<forall>c\<in>set (ident (getIdentifier sg)). \<not> is_upper c))"
proof -
  have e: "createSigner pk k = createSigner pk (''0x'' @ k)"
    using assms by (rule createSigner_add_prefix)
  have "\<exists>a. pk (''0x'' @ k) = Inr a \<and> ident (getIdentifier sg) = toLowerCase (address a)"
    if "createSigner pk k = Inr sg" for sg
  proof -
    from createSigner_Inr [OF that] assms
    obtain a where "pk (''0x'' @ k) = Inr a" "user_account (signer_user sg) = a"
      by (simp only: if_False) blast
    then show ?thesis by (simp add: getIdentifier_def del: append.simps)
  qed
  moreover have "\<forall>c\<in>set (ident (getIdentifier sg)). \<not> is_upper c" for sg
    using toLowerCase_no_upper by (simp add: getIdentifier_def)
  ultimately show ?thesis using e by (simp del: append.simps)
qed

theorem createSigner_prefix_witness:
  "\<not> startsWith ''ab12'' ''0x''
   \<and> map_sum id getIdentifier (createSigner (\<lambda>k. Inr \<lparr>address = ''0xAbC1''\<rparr>) ''ab12'')
       = Inr \<lparr>ident = ''0xabc1'', identifierKind = Ethereum\<rparr>
   \<and> map_sum id getIdentifier (createSigner (\<lambda>k. Inr \<lparr>address = ''0xAbC1''\<rparr>) ''0xab12'')
       = Inr \<lparr>ident = ''0xabc1'', identifierKind = Ethereum\<rparr>"
proof -
  let ?pk = "\<lambda>k::string. (Inr \<lparr>address = ''0xAbC1''\<rparr> :: js_thrown + account)"
  have h: "\<not> startsWith ''ab12'' ''0x''"
    by (simp add: startsWith_def)
  have v: "map_sum id getIdentifier (createSigner ?pk ''ab12'')
             = Inr \<lparr>ident = ''0xabc1'', identifierKind = Ethereum\<rparr>"
    by (simp add: startsWith_def createSigner_def createUser_def getIdentifier_def
        toLowerCase_def lower_char_def upper_letters_def lower_letters_def)
  have "map_sum id getIdentifier (createSigner ?pk ''ab12'')
          = map_sum id getIdentifier (createSigner ?pk (''0x'' @ ''ab12''))"
    using createSigner_prefix [OF h, of ?pk] by (rule conjunct1)
  with v h show ?thesis by simp
qed

subsection \<open>Environment resolver\<close>



























subsection \<open>Relay pipeline: auxiliary facts\<close>

subsubsection \<open>Sequencing\<close>

lemmas io_defs = returnE_def throwE_def bindE_def catchE_def liftE_def emit_def call_def
  this_client_def client_guard_def

lemma bindE_Inr:
  "bindE m f s = (Inr r, s') \<longleftrightarrow> (\<exists>x s1. m s = (Inr x, s1) \<and> f x s1 = (Inr r, s'))"
  by (auto simp: bindE_def split: prod.splits sum.splits)

lemma bindE_Inl:
  "bindE m f s = (Inl e, s') \<longleftrightarrow>
     m s = (Inl e, s') \<or> (\<exists>x s1. m s = (Inr x, s1) \<and> f x s1 = (Inl e, s'))"
  by (auto simp: bindE_def split: prod.splits sum.splits)

lemma bindE_step: "m s = (Inr x, s1) \<Longrightarrow> bindE m f s = f x s1"
  by (simp add: bindE_def)

lemma bindE_throw: "m s = (Inl e, s1) \<Longrightarrow> bindE m f s = (Inl e, s1)"
  by (simp add: bindE_def)

subsubsection \<open>Client lifecycle\<close>

lemma initializeClient_cached:
  "client s = Some c \<Longrightarrow> initializeClient sdk s = (Inr (), s)"
  by (simp add: initializeClient_def)

lemma initializeClient_fresh_ok:
  assumes "client s = None" and "initializeClient sdk s = (Inr (), s1)"
  shows "\<exists>c. construct sdk s = Inr c
           \<and> s1 = s\<lparr>client := Some c,
                     trace := trace s @ [ClientCreate,
                       ConsoleLog [Str (check_mark @ '' XMTP client initialized'')]]\<rparr>"
  using assms
  by (auto simp: initializeClient_def construct_def io_defs split: sum.splits prod.splits)

lemma initializeClient_fresh_fail:
  assumes "client s = None" and "initializeClient sdk s = (Inl e, s1)"
  shows "\<exists>x. construct sdk s = Inl x
           \<and> e = new_Error (''Failed to initialize XMTP client: '' @ thrown_toString x)
           \<and> client s1 = None \<and> config s1 = config s"
  using assms
  by (auto simp: initializeClient_def construct_def io_defs split: sum.splits prod.splits)

lemma initializeClient_ok_client:
  assumes "initializeClient sdk s = (Inr (), s1)"
  shows "client s1 \<noteq> None \<and> config s1 = config s"
proof (cases "client s")
  case None
  from initializeClient_fresh_ok [OF None assms] show ?thesis by auto
next
  case (Some c)
  with assms show ?thesis by (simp add: initializeClient_def)
qed

subsubsection \<open>Steps that only look things up\<close>

lemma quiet_step_refl: "quiet_step s s"
  by (simp add: quiet_step_def new_events_def)

lemma quiet_stepI:
  "client s' = client s \<Longrightarrow> config s' = config s \<Longrightarrow> trace s' = trace s @ ext \<Longrightarrow>
     list_all quiet ext \<Longrightarrow> quiet_step s s'"
  by (simp add: quiet_step_def new_events_def)

lemma quiet_stepD:
  assumes "quiet_step s s'"
  shows "client s' = client s" and "config s' = config s"
    and "trace s' = trace s @ new_events s s'" and "list_all quiet (new_events s s')"
proof -
  from assms show "client s' = client s" "config s' = config s"
    "list_all quiet (new_events s s')"
    by (simp_all add: quiet_step_def)
  from assms have "take (length (trace s)) (trace s') = trace s"
    by (simp add: quiet_step_def)
  then have "trace s' = trace s @ drop (length (trace s)) (trace s')"
    by (metis append_take_drop_id)
  then show "trace s' = trace s @ new_events s s'"
    by (simp add: new_events_def)
qed

lemma quiet_step_trans:
  assumes "quiet_step s s1" and "quiet_step s1 s2"
  shows "quiet_step s s2"
proof (rule quiet_stepI)
  show "client s2 = client s" "config s2 = config s"
    using quiet_stepD(1,2) [OF assms(1)] quiet_stepD(1,2) [OF assms(2)] by simp_all
  show "trace s2 = trace s @ (new_events s s1 @ new_events s1 s2)"
    using quiet_stepD(3) [OF assms(1)] quiet_stepD(3) [OF assms(2)] by simp
  show "list_all quiet (new_events s s1 @ new_events s1 s2)"
    using quiet_stepD(4) [OF assms(1)] quiet_stepD(4) [OF assms(2)] by simp
qed

lemma quiet_step_event:
  "quiet ev \<Longrightarrow> quiet_step s (s\<lparr>trace := trace s @ [ev]\<rparr>)"
  by (rule quiet_stepI [where ext = "[ev]"]) simp_all

lemma quiet_lookup [simp]: "quiet (InboxStateFromInboxIds ids)"
  and quiet_list [simp]: "quiet ConversationsList"
  and quiet_getDm [simp]: "quiet (GetDmByInboxId i)"
  and quiet_error [simp]: "quiet (ConsoleError args)"
  and quiet_log [simp]: "quiet (ConsoleLog args)"
  and quiet_sync [simp]: "quiet ConversationsSync"
  by (simp_all add: quiet_def)

lemma scan_members_quiet:
  assumes "scan_members sdk addr ms s = (r, s')"
  shows "quiet_step s s'"
  using assms
proof (induction ms arbitrary: s)
  case Nil
  then show ?case by (simp add: quiet_step_refl)
next
  case (Cons m ms)
  show ?case
  proof (cases "client s")
    case None
    with Cons.prems show ?thesis by (simp add: this_client_def quiet_step_refl)
  next
    case (Some c)
    let ?s = "s\<lparr>trace := trace s @ [InboxStateFromInboxIds [inboxId m]]\<rparr>"
    have step: "quiet_step s ?s" by (rule quiet_step_event) simp
    show ?thesis
    proof (cases "inboxStateFromInboxIds sdk c [inboxId m]")
      case (Inl e)
      with Some Cons.prems have "s' = ?s" by (auto simp: this_client_def call_def)
      with step show ?thesis by simp
    next
      case (Inr sts)
      show ?thesis
      proof (cases "member_matches addr sts")
        case True
        with Inr Some Cons.prems have "s' = ?s" by (auto simp: this_client_def call_def)
        with step show ?thesis by simp
      next
        case False
        with Inr Some Cons.prems have "scan_members sdk addr ms ?s = (r, s')"
          by (auto simp: this_client_def call_def)
        then have "quiet_step ?s s'" by (rule Cons.IH)
        with step show ?thesis by (rule quiet_step_trans)
      qed
    qed
  qed
qed

lemma scan_conversations_quiet:
  assumes "scan_conversations sdk addr convs s = (r, s')"
  shows "quiet_step s s'"
  using assms
proof (induction convs arbitrary: s)
  case Nil
  then show ?case by (simp add: quiet_step_refl)
next
  case (Cons conv convs)
  show ?case
  proof (cases "members conv")
    case (MembersMethod ms)
    with Cons.prems show ?thesis by (simp add: quiet_step_refl)
  next
    case (MembersArray ms)
    obtain r1 s1 where sm: "scan_members sdk addr ms s = (r1, s1)"
      by (cases "scan_members sdk addr ms s")
    then have q: "quiet_step s s1" by (rule scan_members_quiet)
    show ?thesis
    proof (cases r1)
      case (Inl e)
      with MembersArray sm Cons.prems have "s' = s1" by simp
      with q show ?thesis by simp
    next
      case (Inr found)
      show ?thesis
      proof (cases found)
        case None
        with Inr MembersArray sm Cons.prems have "scan_conversations sdk addr convs s1 = (r, s')"
          by simp
        then have "quiet_step s1 s'" by (rule Cons.IH)
        with q show ?thesis by (rule quiet_step_trans)
      next
        case (Some inbox)
        with Inr MembersArray sm Cons.prems have "s' = s1" by simp
        with q show ?thesis by simp
      qed
    qed
  qed
qed

subsubsection \<open>Resolution with a client at hand\<close>

lemma getInboxIdFromAddress_try_ready:
  assumes "client s = Some c"
  shows "getInboxIdFromAddress_try sdk addr s =
           (case conversations_list sdk c of
              Inl e \<Rightarrow> (Inl e, s\<lparr>trace := trace s @ [ConversationsList]\<rparr>)
            | Inr convs \<Rightarrow>
                scan_conversations sdk addr convs (s\<lparr>trace := trace s @ [ConversationsList]\<rparr>))"
  using assms
  by (simp add: getInboxIdFromAddress_try_def initializeClient_cached bindE_def
        client_guard_def returnE_def this_client_def call_def split: sum.splits)

lemma getInboxIdFromAddress_try_quiet:
  assumes "client s = Some c" and "getInboxIdFromAddress_try sdk addr s = (r, s')"
  shows "quiet_step s s'"
proof -
  let ?s = "s\<lparr>trace := trace s @ [ConversationsList]\<rparr>"
  have step: "quiet_step s ?s" by (rule quiet_step_event) simp
  show ?thesis
  proof (cases "conversations_list sdk c")
    case (Inl e)
    with assms have "s' = ?s" by (simp add: getInboxIdFromAddress_try_ready)
    with step show ?thesis by simp
  next
    case (Inr convs)
    with assms have "scan_conversations sdk addr convs ?s = (r, s')"
      by (simp add: getInboxIdFromAddress_try_ready)
    then have "quiet_step ?s s'" by (rule scan_conversations_quiet)
    with step show ?thesis by (rule quiet_step_trans)
  qed
qed

lemma getInboxIdFromAddress_caught:
  "getInboxIdFromAddress_try sdk addr s = (Inl e, s1) \<Longrightarrow>
     getInboxIdFromAddress sdk addr s =
       (Inr None,
        s1\<lparr>trace := trace s1 @
          [ConsoleError [Str (''Error getting inbox ID for address '' @ addr @ '':''),
                         Thrown e]]\<rparr>)"
  by (simp add: getInboxIdFromAddress_def catchE_def bindE_def emit_def returnE_def)

lemma getInboxIdFromAddress_passed:
  "getInboxIdFromAddress_try sdk addr s = (Inr r, s1) \<Longrightarrow>
     getInboxIdFromAddress sdk addr s = (Inr r, s1)"
  by (simp add: getInboxIdFromAddress_def catchE_def)

lemma getInboxIdFromAddress_total:
  "\<exists>r s'. getInboxIdFromAddress sdk addr s = (Inr r, s')"
proof (cases "getInboxIdFromAddress_try sdk addr s")
  case (Pair r s1)
  then show ?thesis
    by (cases r) (auto dest: getInboxIdFromAddress_caught getInboxIdFromAddress_passed)
qed

lemma getInboxIdFromAddress_quiet:
  assumes "client s = Some c" and "getInboxIdFromAddress sdk addr s = (r, s')"
  shows "quiet_step s s'"
proof (cases "getInboxIdFromAddress_try sdk addr s")
  case (Pair r1 s1)
  then have q: "quiet_step s s1"
    using assms(1) by (auto intro: getInboxIdFromAddress_try_quiet)
  show ?thesis
  proof (cases r1)
    case (Inl e)
    with Pair assms(2) have
      "s' = s1\<lparr>trace := trace s1 @
          [ConsoleError [Str (''Error getting inbox ID for address '' @ addr @ '':''),
                         Thrown e]]\<rparr>"
      by (auto dest: getInboxIdFromAddress_caught)
    then have "quiet_step s1 s'" by (simp add: quiet_step_event)
    with q show ?thesis by (rule quiet_step_trans)
  next
    case (Inr v)
    with Pair assms(2) have "s' = s1" by (auto dest: getInboxIdFromAddress_passed)
    with q show ?thesis by simp
  qed
qed

lemma find_conversation_after:
  assumes "getInboxIdFromAddress sdk addr s = (Inr inbox, s1)" and "client s1 = Some c"
  shows "find_conversation sdk addr s =
           (if truthy inbox
            then (getDmByInboxId sdk c (the inbox),
                  s1\<lparr>trace := trace s1 @ [GetDmByInboxId (the inbox)]\<rparr>)
            else (Inr None, s1))"
  using assms
  by (simp add: find_conversation_def bindE_def this_client_def call_def returnE_def)

lemma find_conversation_quiet:
  assumes "client s = Some c" and "find_conversation sdk addr s = (r, s')"
  shows "quiet_step s s'"
proof -
  obtain inbox s1 where g: "getInboxIdFromAddress sdk addr s = (Inr inbox, s1)"
    using getInboxIdFromAddress_total by blast
  with assms(1) have q: "quiet_step s s1" by (rule getInboxIdFromAddress_quiet)
  then have c1: "client s1 = Some c" using assms(1) by (simp add: quiet_stepD(1))
  show ?thesis
  proof (cases "truthy inbox")
    case True
    with assms(2) have "s' = s1\<lparr>trace := trace s1 @ [GetDmByInboxId (the inbox)]\<rparr>"
      by (simp add: find_conversation_after [OF g c1])
    then have "quiet_step s1 s'" by (simp add: quiet_step_event)
    with q show ?thesis by (rule quiet_step_trans)
  next
    case False
    with assms(2) have "s' = s1" by (simp add: find_conversation_after [OF g c1])
    with q show ?thesis by simp
  qed
qed

subsubsection \<open>The last steps and the top-level catch\<close>

lemma deliver_eval:
  "deliver sdk addr msg cv s =
     (case conversation_send sdk cv msg of
        Inl e \<Rightarrow> (Inl e, s\<lparr>trace := trace s @ [ConversationSend cv msg]\<rparr>)
      | Inr sent \<Rightarrow>
          ((case sent_id sent of
              Inl e \<Rightarrow> Inl e
            | Inr i \<Rightarrow> Inr \<lparr>success = True, messageId = i, error = None\<rparr>),
           s\<lparr>trace := trace s @ [ConversationSend cv msg,
                ConsoleLog [Str (check_mark @ '' Message sent to '' @ addr)]]\<rparr>))"
  by (simp add: deliver_def bindE_def call_def emit_def returnE_def liftE_def
           split: sum.splits)

lemma sendMessage_caught:
  "sendMessage_try sdk addr msg s = (Inl e, s1) \<Longrightarrow>
     sendMessage sdk addr msg s =
       (Inr (failure (errorMessage e)),
        s1\<lparr>trace := trace s1 @ [failure_log addr (errorMessage e)]\<rparr>)"
  by (simp add: sendMessage_def catchE_def bindE_def emit_def returnE_def failure_def
        failure_log_def)

lemma sendMessage_passed:
  "sendMessage_try sdk addr msg s = (Inr r, s1) \<Longrightarrow> sendMessage sdk addr msg s = (Inr r, s1)"
  by (simp add: sendMessage_def catchE_def)

lemma sendMessage_try_resolved:
  assumes "initializeClient sdk s = (Inr (), s1)" and "client s1 = Some c"
    and "conversations_sync sdk c = Inr ()"
    and "find_conversation sdk addr (s1\<lparr>trace := trace s1 @ [ConversationsSync]\<rparr>)
           = (Inr found, s3)"
  shows "sendMessage_try sdk addr msg s =
           bindE (case found of
                    Some conversation \<Rightarrow> returnE conversation
                  | None \<Rightarrow> create_conversation sdk addr)
                 (deliver sdk addr msg) s3"
  using assms
  by (simp add: sendMessage_try_def bindE_def client_guard_def returnE_def this_client_def
        call_def)

subsubsection \<open>The two branches of the pipeline\<close>

lemma create_conversation_eval:
  assumes "client s = Some c"
  shows "create_conversation sdk addr s =
     (case capability sdk s addr of
        Inl e \<Rightarrow> (Inl e, s\<lparr>trace := trace s @ [capability_event s addr]\<rparr>)
      | Inr mp \<Rightarrow>
          if mp (toLowerCase addr) \<noteq> Some True
          then (Inl (new_Error (''Address '' @ addr @ '' cannot receive XMTP messages'')),
                s\<lparr>trace := trace s @ [capability_event s addr]\<rparr>)
          else
            (case conversations_newDm sdk c addr of
               Inl e \<Rightarrow>
                 (Inl (new_Error (''Cannot create conversation with '' @ addr
                    @ ''. They may need to be active on XMTP first. Original error: ''
                    @ thrown_message e)),
                  s\<lparr>trace := trace s @ [capability_event s addr, NewDm addr]\<rparr>)
             | Inr cv \<Rightarrow>
                 (Inr cv, s\<lparr>trace := trace s @ [capability_event s addr, NewDm addr]\<rparr>)))"
  using assms
  by (simp add: create_conversation_def capability_def capability_event_def bindE_def
        call_def throwE_def catchE_def this_client_def split: sum.splits)

lemma initializeClient_trace:
  assumes "initializeClient sdk s = (r, s1)"
  shows "take (length (trace s)) (trace s1) = trace s \<and> list_all quiet (new_events s s1)"
proof (cases "client s")
  case None
  with assms show ?thesis
    by (auto simp: initializeClient_def io_defs new_events_def quiet_def
             split: sum.splits prod.splits)
next
  case (Some c)
  with assms show ?thesis by (simp add: initializeClient_def new_events_def)
qed

lemma sendMessage_delivered:
  assumes "sendMessage_try sdk addr msg s = deliver sdk addr msg cv s4"
  shows "sendMessage sdk addr msg s =
           (Inr (send_result sdk cv msg),
            s4\<lparr>trace := trace s4 @ ConversationSend cv msg # send_logs sdk addr cv msg\<rparr>)"
proof (cases "conversation_send sdk cv msg")
  case (Inl e)
  with assms have "sendMessage_try sdk addr msg s
      = (Inl e, s4\<lparr>trace := trace s4 @ [ConversationSend cv msg]\<rparr>)"
    by (simp add: deliver_eval)
  from sendMessage_caught [OF this] Inl show ?thesis
    by (simp add: send_result_def send_logs_def)
next
  case sent: (Inr sent)
  let ?s5 = "s4\<lparr>trace := trace s4 @ [ConversationSend cv msg,
                ConsoleLog [Str (check_mark @ '' Message sent to '' @ addr)]]\<rparr>"
  show ?thesis
  proof (cases "sent_id sent")
    case (Inl e)
    with sent assms have "sendMessage_try sdk addr msg s = (Inl e, ?s5)"
      by (simp add: deliver_eval)
    from sendMessage_caught [OF this] Inl sent show ?thesis
      by (simp add: send_result_def send_logs_def)
  next
    case (Inr i)
    with sent assms have "sendMessage_try sdk addr msg s
        = (Inr \<lparr>success = True, messageId = i, error = None\<rparr>, ?s5)"
      by (simp add: deliver_eval)
    from sendMessage_passed [OF this] Inr sent show ?thesis
      by (simp add: send_result_def send_logs_def)
  qed
qed

lemma sendMessage_found_run:
  assumes init: "initializeClient sdk s = (Inr (), s1)" and cl: "client s1 = Some c"
    and sync: "conversations_sync sdk c = Inr ()"
    and found: "find_conversation sdk addr (s1\<lparr>trace := trace s1 @ [ConversationsSync]\<rparr>)
                 = (Inr (Some cv), s3)"
  shows "sendMessage sdk addr msg s =
           (Inr (send_result sdk cv msg),
            s3\<lparr>trace := trace s3 @ ConversationSend cv msg # send_logs sdk addr cv msg\<rparr>)"
proof -
  have "sendMessage_try sdk addr msg s = deliver sdk addr msg cv s3"
    by (simp add: sendMessage_try_resolved [OF init cl sync found] bindE_def returnE_def)
  then show ?thesis by (rule sendMessage_delivered)
qed

lemma new_events_append: "trace s' = trace s @ ext \<Longrightarrow> new_events s s' = ext"
  by (simp add: new_events_def)

lemma initializeClient_grows:
  assumes "initializeClient sdk s = (r, s1)"
  shows "trace s1 = trace s @ new_events s s1"
proof -
  from initializeClient_trace [OF assms]
  have "take (length (trace s)) (trace s1) = trace s" by simp
  then have "trace s1 = trace s @ drop (length (trace s)) (trace s1)"
    by (metis append_take_drop_id)
  then show ?thesis by (simp add: new_events_def)
qed

lemma sendMessage_resolution_frame:
  assumes init: "initializeClient sdk s = (Inr (), s1)" and cl: "client s1 = Some c"
    and find: "find_conversation sdk addr (s1\<lparr>trace := trace s1 @ [ConversationsSync]\<rparr>)
                 = (r, s3)"
  shows "client s3 = Some c" and "config s3 = config s"
    and "\<exists>ext. trace s3 = trace s @ ext \<and> list_all quiet ext"
proof -
  let ?s2 = "s1\<lparr>trace := trace s1 @ [ConversationsSync]\<rparr>"
  have c2: "client ?s2 = Some c" using cl by simp
  from c2 find have q: "quiet_step ?s2 s3" by (rule find_conversation_quiet)
  show "client s3 = Some c" using quiet_stepD(1) [OF q] cl by simp
  show "config s3 = config s"
    using quiet_stepD(2) [OF q] initializeClient_ok_client [OF init] by simp
  have "trace s3 = trace s @ (new_events s s1 @ [ConversationsSync] @ new_events ?s2 s3)"
    using quiet_stepD(3) [OF q] initializeClient_grows [OF init] by simp
  moreover have "list_all quiet (new_events s s1 @ [ConversationsSync] @ new_events ?s2 s3)"
    using quiet_stepD(4) [OF q] initializeClient_trace [OF init] by simp
  ultimately show "\<exists>ext. trace s3 = trace s @ ext \<and> list_all quiet ext" by blast
qed

lemma sendMessage_fallback_run:
  assumes init: "initializeClient sdk s = (Inr (), s1)" and cl: "client s1 = Some c"
    and sync: "conversations_sync sdk c = Inr ()"
    and none: "find_conversation sdk addr (s1\<lparr>trace := trace s1 @ [ConversationsSync]\<rparr>)
                 = (Inr None, s3)"
  shows "sendMessage sdk addr msg s =
     (case create_conversation sdk addr s3 of
        (Inl e, s4) \<Rightarrow>
          (Inr (failure (errorMessage e)),
           s4\<lparr>trace := trace s4 @ [failure_log addr (errorMessage e)]\<rparr>)
      | (Inr cv, s4) \<Rightarrow>
          (Inr (send_result sdk cv msg),
           s4\<lparr>trace := trace s4 @ ConversationSend cv msg # send_logs sdk addr cv msg\<rparr>))"
proof -
  have t: "sendMessage_try sdk addr msg s
             = bindE (create_conversation sdk addr) (deliver sdk addr msg) s3"
    by (simp add: sendMessage_try_resolved [OF init cl sync none])
  obtain r s4 where cc: "create_conversation sdk addr s3 = (r, s4)"
    by (cases "create_conversation sdk addr s3")
  show ?thesis
  proof (cases r)
    case (Inl e)
    with t cc have "sendMessage_try sdk addr msg s = (Inl e, s4)"
      by (simp add: bindE_def)
    from sendMessage_caught [OF this] cc Inl show ?thesis by simp
  next
    case (Inr cv)
    with t cc have "sendMessage_try sdk addr msg s = deliver sdk addr msg cv s4"
      by (simp add: bindE_def)
    from sendMessage_delivered [OF this] cc Inr show ?thesis by simp
  qed
qed

lemma quiet_not_send: "list_all quiet ext \<Longrightarrow> filter is_send ext = []"
  by (induction ext) (auto simp: quiet_def)

lemma quiet_not_creation: "list_all quiet ext \<Longrightarrow> list_all (\<lambda>ev. \<not> is_creation ev) ext"
  by (induction ext) (auto simp: quiet_def)

lemma quiet_not_capability:
  "list_all quiet ext \<Longrightarrow> list_all (\<lambda>ev. \<not> is_capability_check ev) ext"
  by (induction ext) (auto simp: quiet_def)

lemma deliver_Inr:
  "deliver sdk addr msg cv s = (Inr r, s') \<Longrightarrow>
     success r \<and> error r = None"
  by (auto simp: deliver_eval split: sum.splits)

lemma sendMessage_try_Inr:
  assumes "sendMessage_try sdk addr msg s = (Inr r, s')"
  shows "success r \<and> error r = None"
proof -
  from assms obtain cv s4 where "deliver sdk addr msg cv s4 = (Inr r, s')"
    unfolding sendMessage_try_def bindE_Inr by blast
  then show ?thesis by (rule deliver_Inr)
qed

subsubsection \<open>Messages of the exceptions that reach the top-level catch\<close>

lemma initializeClient_Inl_message:
  assumes "initializeClient sdk s = (Inl e, s')"
  shows "errorMessage e \<noteq> []"
proof (cases "client s")
  case None
  from initializeClient_fresh_fail [OF None assms] show ?thesis
    by (auto simp: new_Error_def)
next
  case (Some c)
  with assms show ?thesis by (simp add: initializeClient_def)
qed

lemma this_client_Inl_message: "this_client s = (Inl e, s') \<Longrightarrow> errorMessage e \<noteq> []"
  by (auto simp: this_client_def split: option.splits)

lemma client_guard_Inl_message: "client_guard s = (Inl e, s') \<Longrightarrow> errorMessage e \<noteq> []"
  by (auto simp: client_guard_def throwE_def returnE_def new_Error_def split: if_splits)

lemma find_conversation_Inl_message:
  assumes "throws_with_message sdk" and "find_conversation sdk addr s = (Inl e, s')"
  shows "errorMessage e \<noteq> []"
proof -
  obtain inbox s1 where g: "getInboxIdFromAddress sdk addr s = (Inr inbox, s1)"
    using getInboxIdFromAddress_total by blast
  from assms(2) g have "truthy inbox \<and>
      (this_client s1 = (Inl e, s')
       \<or> (\<exists>c s2. getDmByInboxId sdk c (the inbox) = Inl e))"
    by (auto simp: find_conversation_def bindE_def call_def returnE_def
             split: if_splits prod.splits sum.splits)
  then show ?thesis
    using assms(1) this_client_Inl_message by (auto simp: throws_with_message_def)
qed

lemma create_conversation_Inl_message:
  assumes "throws_with_message sdk" and "create_conversation sdk addr s = (Inl e, s')"
  shows "errorMessage e \<noteq> []"
proof -
  from assms(2) have
    "(\<exists>ids en. Client_canMessage sdk ids en = Inl e)
     \<or> e = new_Error (''Address '' @ addr @ '' cannot receive XMTP messages'')
     \<or> (\<exists>x. e = new_Error (''Cannot create conversation with '' @ addr
            @ ''. They may need to be active on XMTP first. Original error: ''
            @ thrown_message x))"
    by (auto simp: create_conversation_def bindE_def call_def throwE_def catchE_def
             split: if_splits prod.splits sum.splits)
  then show ?thesis
    using assms(1) by (auto simp: throws_with_message_def new_Error_def)
qed

lemma sent_id_Inl_message: "sent_id sent = Inl e \<Longrightarrow> errorMessage e \<noteq> []"
  by (cases sent) (auto simp: sent_id_def)

lemma deliver_Inl_message:
  assumes "throws_with_message sdk" and "deliver sdk addr msg cv s = (Inl e, s')"
  shows "errorMessage e \<noteq> []"
  using assms
  by (auto simp: deliver_eval throws_with_message_def sent_id_Inl_message split: sum.splits)

lemma sendMessage_try_Inl_message:
  assumes t: "throws_with_message sdk" and "sendMessage_try sdk addr msg s = (Inl e, s')"
  shows "errorMessage e \<noteq> []"
proof -
  from assms(2) consider
      s0 where "initializeClient sdk s0 = (Inl e, s')"
    | s0 where "client_guard s0 = (Inl e, s')"
    | s0 where "this_client s0 = (Inl e, s')"
    | c where "conversations_sync sdk c = Inl e"
    | s0 where "find_conversation sdk addr s0 = (Inl e, s')"
    | s0 where "create_conversation sdk addr s0 = (Inl e, s')"
    | cv s0 where "deliver sdk addr msg cv s0 = (Inl e, s')"
    unfolding sendMessage_try_def bindE_Inl
    by (auto simp: call_def returnE_def split: option.splits)
  then show ?thesis
  proof cases
    case 1 then show ?thesis by (rule initializeClient_Inl_message)
  next
    case 2 then show ?thesis by (rule client_guard_Inl_message)
  next
    case 3 then show ?thesis by (rule this_client_Inl_message)
  next
    case 4 then show ?thesis using t by (auto simp: throws_with_message_def)
  next
    case 5 with t show ?thesis by (rule find_conversation_Inl_message)
  next
    case 6 with t show ?thesis by (rule create_conversation_Inl_message)
  next
    case 7 with t show ?thesis by (rule deliver_Inl_message)
  qed
qed

subsubsection \<open>The result, step by step\<close>

lemma initializeClient_fresh_throws:
  assumes "client s = None" and "construct sdk s = Inl x"
  shows "\<exists>s1. initializeClient sdk s =
           (Inl (new_Error (''Failed to initialize XMTP client: '' @ thrown_toString x)), s1)"
  using assms
  by (auto simp: initializeClient_def construct_def io_defs split: sum.splits prod.splits)

lemma sendMessage_total: "\<exists>r s'. sendMessage sdk addr msg s = (Inr r, s')"
proof (cases "sendMessage_try sdk addr msg s")
  case (Pair res s1)
  then show ?thesis
    by (cases res) (auto dest: sendMessage_caught sendMessage_passed)
qed

lemma sendMessage_thrown:
  "sendMessage_try sdk addr msg s = (Inl e, s1) \<Longrightarrow>
     fst (sendMessage sdk addr msg s) = Inr (failure (errorMessage e))"
  by (simp add: sendMessage_caught)

lemma sendMessage_init_throws:
  assumes "client s = None" and "construct sdk s = Inl x"
  shows "fst (sendMessage sdk addr msg s)
           = Inr (failure (''Failed to initialize XMTP client: '' @ thrown_toString x))"
proof -
  from initializeClient_fresh_throws [OF assms] obtain s1 where
    "initializeClient sdk s =
       (Inl (new_Error (''Failed to initialize XMTP client: '' @ thrown_toString x)), s1)"
    by blast
  then have "sendMessage_try sdk addr msg s =
       (Inl (new_Error (''Failed to initialize XMTP client: '' @ thrown_toString x)), s1)"
    by (simp add: sendMessage_try_def bindE_throw)
  from sendMessage_thrown [OF this] show ?thesis by (simp add: new_Error_def)
qed

lemma sendMessage_sync_throws:
  assumes "initializeClient sdk s = (Inr (), s1)" and "client s1 = Some c"
    and "conversations_sync sdk c = Inl e"
  shows "fst (sendMessage sdk addr msg s) = Inr (failure (errorMessage e))"
proof -
  from assms have "sendMessage_try sdk addr msg s
      = (Inl e, s1\<lparr>trace := trace s1 @ [ConversationsSync]\<rparr>)"
    by (simp add: sendMessage_try_def bindE_def client_guard_def returnE_def this_client_def
          call_def)
  then show ?thesis by (rule sendMessage_thrown)
qed

lemma sendMessage_find_throws:
  assumes "initializeClient sdk s = (Inr (), s1)" and "client s1 = Some c"
    and "conversations_sync sdk c = Inr ()"
    and "find_conversation sdk addr (s1\<lparr>trace := trace s1 @ [ConversationsSync]\<rparr>)
           = (Inl e, s3)"
  shows "fst (sendMessage sdk addr msg s) = Inr (failure (errorMessage e))"
proof -
  from assms have "sendMessage_try sdk addr msg s = (Inl e, s3)"
    by (simp add: sendMessage_try_def bindE_def client_guard_def returnE_def this_client_def
          call_def)
  then show ?thesis by (rule sendMessage_thrown)
qed

lemma sendMessage_getDm_throws:
  assumes init: "initializeClient sdk s = (Inr (), s1)" and cl: "client s1 = Some c"
    and sync: "conversations_sync sdk c = Inr ()"
    and inbox: "getInboxIdFromAddress sdk addr (s1\<lparr>trace := trace s1 @ [ConversationsSync]\<rparr>)
           = (Inr (Some inbox), s2)" "inbox \<noteq> []"
    and dm: "getDmByInboxId sdk c inbox = Inl e"
  shows "fst (sendMessage sdk addr msg s) = Inr (failure (errorMessage e))"
proof -
  let ?s = "s1\<lparr>trace := trace s1 @ [ConversationsSync]\<rparr>"
  have "client ?s = Some c" using cl by simp
  then have "quiet_step ?s s2" using inbox(1) by (rule getInboxIdFromAddress_quiet)
  then have c2: "client s2 = Some c" using cl by (simp add: quiet_stepD(1))
  have "find_conversation sdk addr ?s = (Inl e, s2\<lparr>trace := trace s2 @ [GetDmByInboxId inbox]\<rparr>)"
    using inbox(2) dm by (simp add: find_conversation_after [OF inbox(1) c2] truthy_def)
  with init cl sync show ?thesis by (rule sendMessage_find_throws)
qed

lemma sendMessage_after_lookup:
  assumes init: "initializeClient sdk s = (Inr (), s1)" and cl: "client s1 = Some c"
    and sync: "conversations_sync sdk c = Inr ()"
    and find: "find_conversation sdk addr (s1\<lparr>trace := trace s1 @ [ConversationsSync]\<rparr>)
           = (Inr found, s3)"
  shows "fst (sendMessage sdk addr msg s) =
     Inr (case found of
            Some cv \<Rightarrow> send_result sdk cv msg
          | None \<Rightarrow>
              (case capability sdk s addr of
                 Inl e \<Rightarrow> failure (errorMessage e)
               | Inr mp \<Rightarrow>
                   if mp (toLowerCase addr) \<noteq> Some True
                   then failure (''Address '' @ addr @ '' cannot receive XMTP messages'')
                   else
                     (case conversations_newDm sdk c addr of
                        Inl e \<Rightarrow>
                          failure (''Cannot create conversation with '' @ addr
                            @ ''. They may need to be active on XMTP first. Original error: ''
                            @ thrown_message e)
                      | Inr cv \<Rightarrow> send_result sdk cv msg)))"
proof (cases found)
  case (Some cv)
  with find have "find_conversation sdk addr (s1\<lparr>trace := trace s1 @ [ConversationsSync]\<rparr>)
           = (Inr (Some cv), s3)" by simp
  from sendMessage_found_run [OF init cl sync this] Some show ?thesis by simp
next
  case None
  with find have none: "find_conversation sdk addr (s1\<lparr>trace := trace s1 @ [ConversationsSync]\<rparr>)
           = (Inr None, s3)" by simp
  note fr = sendMessage_resolution_frame [OF init cl none]
  have cap3: "capability sdk s3 addr = capability sdk s addr"
    using fr(2) by (simp add: capability_def)
  show ?thesis
    unfolding sendMessage_fallback_run [OF init cl sync none]
      create_conversation_eval [OF fr(1)] cap3 None
    by (simp add: new_Error_def split: sum.splits)
qed

subsubsection \<open>The concrete network\<close>

lemmas sdk0_simps = sdk0_def config0_def service0_def service1_def group0_def member_a_def
  member_b_def dm_b_def dm_new_def

lemma init0: "initializeClient sdk0 service0 = (Inr (), service1)"
  by (simp add: initializeClient_def sdk0_simps io_defs createSigner_def createUser_def
        getEncryptionKeyFromHex_def startsWith_def)

lemmas run_defs = sendMessage_def sendMessage_try_def find_conversation_def
  getInboxIdFromAddress_def getInboxIdFromAddress_try_def create_conversation_def
  deliver_def sent_id_def initializeClient_def member_matches_def io_defs createSigner_def
  createUser_def getEncryptionKeyFromHex_def startsWith_def truthy_def
  toLowerCase_def lower_char_def upper_letters_def lower_letters_def

lemma client1: "client service1 = Some 7"
  by (simp add: service1_def)

lemma synced_eq: "service1\<lparr>trace := trace service1 @ [ConversationsSync]\<rparr> = service_synced"
  by (simp add: service_synced_def)

lemma sync0: "conversations_sync sdk0 7 = Inr ()"
  by (simp add: sdk0_def)

lemma find_none0: "find_conversation sdk0 ''0xEEE0'' service_synced = (Inr None, service_scanned)"
  by (simp add: service_synced_def service_scanned_def sdk0_simps run_defs)

lemma find_none1: "find_conversation sdk0 ''0xFFF0'' service_synced = (Inr None, service_scanned)"
  by (simp add: service_synced_def service_scanned_def sdk0_simps run_defs)

lemma lower_fff0: "toLowerCase ''0xFFF0'' = ''0xfff0''"
  by (simp add: toLowerCase_def lower_char_def upper_letters_def lower_letters_def)

subsection \<open>Client lifecycle\<close>

text \<open>
  Claim C8. After a call of \<open>initializeClient\<close> that succeeds, a second call (whatever
  the SDK would answer) returns at once and leaves the service as it is: no further
  \<open>Client.create\<close>. Of the two calls together, \<open>Client.create\<close> is invoked exactly once
  when the service had no client, and not at all when it had one.
\<close>

theorem initializeClient_idempotent:
  assumes "initializeClient sdk1 s = (Inr (), s1)"
  shows "initializeClient sdk2 s1 = (Inr (), s1)
       \<and> count_list (trace s1) ClientCreate
           = count_list (trace s) ClientCreate + (if client s = None then 1 else 0)"
proof (cases "client s")
  case None
  from initializeClient_fresh_ok [OF None assms] obtain c where
    s1: "s1 = s\<lparr>client := Some c,
                 trace := trace s @ [ClientCreate,
                   ConsoleLog [Str (check_mark @ '' XMTP client initialized'')]]\<rparr>"
    by blast
  then have "client s1 = Some c" by simp
  then have "initializeClient sdk2 s1 = (Inr (), s1)" by (rule initializeClient_cached)
  moreover have "count_list (trace s1) ClientCreate = count_list (trace s) ClientCreate + 1"
    by (simp add: s1)
  ultimately show ?thesis using None by simp
next
  case (Some c)
  with assms have "s1 = s" by (simp add: initializeClient_def)
  with Some show ?thesis by (simp add: initializeClient_def)
qed


theorem initializeClient_idempotent_witness:
  "initializeClient sdk0 service0 = (Inr (), service1)
   \<and> initializeClient sdk_sync_fails service1 = (Inr (), service1)
   \<and> count_list (trace service1) ClientCreate = 1"
proof -
  have h: "initializeClient sdk0 service0 = (Inr (), service1)"
    by (simp add: initializeClient_def sdk0_simps io_defs createSigner_def createUser_def
        getEncryptionKeyFromHex_def startsWith_def)
  have "client service0 = None" and "trace service0 = []"
    by (simp_all add: service0_def)
  with initializeClient_idempotent [OF h, of sdk_sync_fails] h show ?thesis
    by simp
qed

subsection \<open>Relay pipeline\<close>

text \<open>
  Claim C2, as amended. \<open>sendMessage\<close> never raises: it always resolves to a result \<open>r\<close>.
  An exception of the address scan is caught inside \<open>getInboxIdFromAddress\<close> and the
  pipeline goes on; every other step that throws ends the call with a failure:

  \<^item> when the construction of the client throws \<open>x\<close>, \<open>r\<close> is \<open>{success: false, error}\<close> with
    the error \<open>Failed to initialize XMTP client: \<close> followed by \<open>String(x)\<close>;
  \<^item> when \<open>sync\<close> throws \<open>e\<close>, or \<open>getDmByInboxId\<close> (called for the inbox id the scan
    found) throws \<open>e\<close>, or no conversation was found and the capability check throws \<open>e\<close>,
    \<open>r\<close> is \<open>{success: false, error: m}\<close> where \<open>m\<close> is \<open>e.message\<close> for an \<open>Error\<close> and
    \<open>String(e)\<close> otherwise;
  \<^item> when the capability check refuses the address, or the creation throws, \<open>r\<close> is the
    failure with the error the service builds for that case;
  \<^item> when the message goes to a conversation, the one found or the one created, \<open>r\<close> is
    the result of that send, and if \<open>send\<close> throws \<open>e\<close> it is \<open>{success: false, error: m}\<close>
    with \<open>m\<close> as above.

  The error of a failure is non-empty provided that the exceptions the SDK throws from
  \<open>sync\<close>, \<open>getDmByInboxId\<close>, \<open>canMessage\<close> and \<open>send\<close> carry a non-empty message.
\<close>

theorem sendMessage_never_raises:
  "\<exists>r s'. sendMessage sdk addr msg s = (Inr r, s')
     \<and> (\<forall>x. client s = None \<and> construct sdk s = Inl x \<longrightarrow>
           r = failure (''Failed to initialize XMTP client: '' @ thrown_toString x))
     \<and> (\<forall>s1 c. initializeClient sdk s = (Inr (), s1) \<and> client s1 = Some c \<longrightarrow>
           (\<forall>e. conversations_sync sdk c = Inl e \<longrightarrow> r = failure (errorMessage e))
         \<and> (conversations_sync sdk c = Inr () \<longrightarrow>
              (\<forall>inbox s2 e.
                  getInboxIdFromAddress sdk addr (s1\<lparr>trace := trace s1 @ [ConversationsSync]\<rparr>)
                    = (Inr (Some inbox), s2)
                  \<and> inbox \<noteq> [] \<and> getDmByInboxId sdk c inbox = Inl e \<longrightarrow>
                  r = failure (errorMessage e))
            \<and> (\<forall>cv s3.
                  find_conversation sdk addr (s1\<lparr>trace := trace s1 @ [ConversationsSync]\<rparr>)
                    = (Inr (Some cv), s3) \<longrightarrow>
                  r = send_result sdk cv msg
                  \<and> (\<forall>e. conversation_send sdk cv msg = Inl e \<longrightarrow>
                         r = failure (errorMessage e)))
            \<and> (\<forall>s3.
                  find_conversation sdk addr (s1\<lparr>trace := trace s1 @ [ConversationsSync]\<rparr>)
                    = (Inr None, s3) \<longrightarrow>
                  (\<forall>e. capability sdk s addr = Inl e \<longrightarrow> r = failure (errorMessage e))
                \<and> (\<forall>mp. capability sdk s addr = Inr mp \<and> mp (toLowerCase addr) \<noteq> Some True \<longrightarrow>
                       r = failure (''Address '' @ addr @ '' cannot receive XMTP messages''))
                \<and> (\<forall>mp. capability sdk s addr = Inr mp \<and> mp (toLowerCase addr) = Some True \<longrightarrow>
                       (\<forall>e. conversations_newDm sdk c addr = Inl e \<longrightarrow>
                          r = failure (''Cannot create conversation with '' @ addr
                            @ ''. They may need to be active on XMTP first. Original error: ''
                            @ thrown_message e))
                     \<and> (\<forall>cv. conversations_newDm sdk c addr = Inr cv \<longrightarrow>
                          r = send_result sdk cv msg
                          \<and> (\<forall>e. conversation_send sdk cv msg = Inl e \<longrightarrow>
                                 r = failure (errorMessage e)))))))
     \<and> (throws_with_message sdk \<longrightarrow> success r \<or> (\<exists>m. m \<noteq> [] \<and> r = failure m))"
  (is "\<exists>r s'. ?run r s' \<and> ?init r \<and> ?steps r \<and> ?nonempty r")
proof -
  obtain r s' where run: "sendMessage sdk addr msg s = (Inr r, s')"
    using sendMessage_total by blast
  then have res: "fst (sendMessage sdk addr msg s) = Inr r" by simp
  have send: "send_result sdk cv msg = failure (errorMessage e)"
    if "conversation_send sdk cv msg = Inl e" for cv e
    using that by (simp add: send_result_def)
  have a: "?init r"
  proof (intro allI impI, elim conjE)
    fix x
    assume "client s = None" and "construct sdk s = Inl x"
    from sendMessage_init_throws [OF this, of addr msg] res
    show "r = failure (''Failed to initialize XMTP client: '' @ thrown_toString x)"
      by simp
  qed
  have b: "?steps r"
    apply (intro allI impI conjI)
    subgoal for s1 c e
      using sendMessage_sync_throws [of sdk s s1 c e addr msg] res by simp
    subgoal for s1 c inbox s2 e
      using sendMessage_getDm_throws [of sdk s s1 c addr inbox s2 e msg] res by simp
    subgoal for s1 c cv s3
      using sendMessage_after_lookup [of sdk s s1 c addr "Some cv" s3 msg] res by simp
    subgoal for s1 c cv s3 e
      using sendMessage_after_lookup [of sdk s s1 c addr "Some cv" s3 msg] res
        send [of cv e] by simp
    subgoal for s1 c s3 e
      using sendMessage_after_lookup [of sdk s s1 c addr None s3 msg] res by simp
    subgoal for s1 c s3 mp
      using sendMessage_after_lookup [of sdk s s1 c addr None s3 msg] res
      by (simp del: append.simps)
    subgoal for s1 c s3 mp e
      using sendMessage_after_lookup [of sdk s s1 c addr None s3 msg] res
      by (simp del: append.simps)
    subgoal for s1 c s3 mp cv
      using sendMessage_after_lookup [of sdk s s1 c addr None s3 msg] res by simp
    subgoal for s1 c s3 mp cv e
      using sendMessage_after_lookup [of sdk s s1 c addr None s3 msg] res
        send [of cv e] by simp
    done
  have c: "?nonempty r"
  proof
    assume tw: "throws_with_message sdk"
    obtain res1 s1 where t: "sendMessage_try sdk addr msg s = (res1, s1)"
      by (cases "sendMessage_try sdk addr msg s")
    show "success r \<or> (\<exists>m. m \<noteq> [] \<and> r = failure m)"
    proof (cases res1)
      case (Inl e)
      with t have t': "sendMessage_try sdk addr msg s = (Inl e, s1)" by simp
      from sendMessage_thrown [OF t'] res have "r = failure (errorMessage e)" by simp
      with sendMessage_try_Inl_message [OF tw t'] show ?thesis by blast
    next
      case (Inr r')
      with t have t': "sendMessage_try sdk addr msg s = (Inr r', s1)" by simp
      from sendMessage_passed [OF t'] run sendMessage_try_Inr [OF t'] show ?thesis by simp
    qed
  qed
  from run a b c show ?thesis by (intro exI conjI)
qed

theorem sendMessage_never_raises_witness:
  "construct sdk_create_fails service0 = Inl (ErrorObject ''Error'' ''bad key'')
   \<and> fst (sendMessage sdk_create_fails ''0xABC0'' ''hi'' service0)
       = Inr (failure ''Failed to initialize XMTP client: Error: bad key'')
   \<and> conversations_sync sdk_sync_throws 7 = Inl (Primitive ''timeout'')
   \<and> fst (sendMessage sdk_sync_throws ''0xABC0'' ''hi'' service0) = Inr (failure ''timeout'')
   \<and> getDmByInboxId sdk_getDm_fails 7 ''inbox-b'' = Inl (ErrorObject ''Error'' ''database locked'')
   \<and> fst (sendMessage sdk_getDm_fails ''0xABC0'' ''hi'' service0)
       = Inr (failure ''database locked'')
   \<and> capability sdk_canMessage_fails service0 ''0xFFF0''
       = Inl (ErrorObject ''Error'' ''network unreachable'')
   \<and> fst (sendMessage sdk_canMessage_fails ''0xFFF0'' ''hi'' service0)
       = Inr (failure ''network unreachable'')
   \<and> conversation_send sdk_send_fails dm_b ''hi'' = Inl (ErrorObject ''Error'' ''network down'')
   \<and> fst (sendMessage sdk_send_fails ''0xABC0'' ''hi'' service0) = Inr (failure ''network down'')
   \<and> conversation_send sdk_send_fails dm_new ''hi'' = Inl (ErrorObject ''Error'' ''network down'')
   \<and> fst (sendMessage sdk_send_fails ''0xFFF0'' ''hi'' service0) = Inr (failure ''network down'')
   \<and> fst (sendMessage sdk0 ''0xEEE0'' ''hi'' service0)
       = Inr (failure ''Address 0xEEE0 cannot receive XMTP messages'')
   \<and> fst (sendMessage sdk_newDm_fails ''0xFFF0'' ''hi'' service0)
       = Inr (failure (''Cannot create conversation with 0xFFF0. ''
           @ ''They may need to be active on XMTP first. Original error: inbox not found''))
   \<and> throws_with_message sdk_send_fails"
proof -
  note ev = sdk0_simps service_synced_def service_scanned_def service_found_def run_defs
    new_Error_def
  have fresh: "client service0 = None"
    by (simp add: service0_def)
  have lower_eee0: "toLowerCase ''0xEEE0'' = ''0xeee0''"
    by (simp add: toLowerCase_def lower_char_def upper_letters_def lower_letters_def)

  have con: "construct sdk_create_fails service0 = Inl (ErrorObject ''Error'' ''bad key'')"
    by (simp add: construct_def sdk_create_fails_def ev)
  from sendMessage_never_raises [of sdk_create_fails "''0xABC0''" "''hi''" service0] fresh con
  have r1: "fst (sendMessage sdk_create_fails ''0xABC0'' ''hi'' service0)
              = Inr (failure ''Failed to initialize XMTP client: Error: bad key'')"
    by auto

  have init2: "initializeClient sdk_sync_throws service0 = (Inr (), service1)"
    by (simp add: sdk_sync_throws_def ev)
  have sync2: "conversations_sync sdk_sync_throws 7 = Inl (Primitive ''timeout'')"
    by (simp add: sdk_sync_throws_def)
  from sendMessage_never_raises [of sdk_sync_throws "''0xABC0''" "''hi''" service0]
    init2 client1 sync2
  have r2: "fst (sendMessage sdk_sync_throws ''0xABC0'' ''hi'' service0)
              = Inr (failure ''timeout'')"
    by auto

  have init3: "initializeClient sdk_getDm_fails service0 = (Inr (), service1)"
    by (simp add: sdk_getDm_fails_def ev)
  have sync3: "conversations_sync sdk_getDm_fails 7 = Inr ()"
    by (simp add: sdk_getDm_fails_def sdk0_def)
  have inbox3: "getInboxIdFromAddress sdk_getDm_fails ''0xABC0''
                  (service1\<lparr>trace := trace service1 @ [ConversationsSync]\<rparr>)
                  = (Inr (Some ''inbox-b''), service_scanned)"
    by (simp add: sdk_getDm_fails_def ev)
  have dm3: "getDmByInboxId sdk_getDm_fails 7 ''inbox-b''
               = Inl (ErrorObject ''Error'' ''database locked'')"
    by (simp add: sdk_getDm_fails_def new_Error_def)
  from sendMessage_never_raises [of sdk_getDm_fails "''0xABC0''" "''hi''" service0]
    init3 client1 sync3 inbox3 dm3
  have r3: "fst (sendMessage sdk_getDm_fails ''0xABC0'' ''hi'' service0)
              = Inr (failure ''database locked'')"
    by auto

  have init4: "initializeClient sdk_canMessage_fails service0 = (Inr (), service1)"
    by (simp add: sdk_canMessage_fails_def ev)
  have sync4: "conversations_sync sdk_canMessage_fails 7 = Inr ()"
    by (simp add: sdk_canMessage_fails_def sdk0_def)
  have none4: "find_conversation sdk_canMessage_fails ''0xFFF0''
                 (service1\<lparr>trace := trace service1 @ [ConversationsSync]\<rparr>)
                 = (Inr None, service_scanned)"
    by (simp add: sdk_canMessage_fails_def ev)
  have cap4: "capability sdk_canMessage_fails service0 ''0xFFF0''
                = Inl (ErrorObject ''Error'' ''network unreachable'')"
    by (simp add: capability_def sdk_canMessage_fails_def new_Error_def)
  from sendMessage_never_raises [of sdk_canMessage_fails "''0xFFF0''" "''hi''" service0]
    init4 client1 sync4 none4 cap4
  have r4: "fst (sendMessage sdk_canMessage_fails ''0xFFF0'' ''hi'' service0)
              = Inr (failure ''network unreachable'')"
    by auto

  have init5: "initializeClient sdk_send_fails service0 = (Inr (), service1)"
    by (simp add: sdk_send_fails_def ev)
  have sync5: "conversations_sync sdk_send_fails 7 = Inr ()"
    by (simp add: sdk_send_fails_def sdk0_def)
  have found5: "find_conversation sdk_send_fails ''0xABC0''
                  (service1\<lparr>trace := trace service1 @ [ConversationsSync]\<rparr>)
                  = (Inr (Some dm_b), service_found)"
    by (simp add: sdk_send_fails_def ev)
  have send5: "conversation_send sdk_send_fails cv ''hi''
                 = Inl (ErrorObject ''Error'' ''network down'')" for cv
    by (simp add: sdk_send_fails_def new_Error_def)
  from sendMessage_never_raises [of sdk_send_fails "''0xABC0''" "''hi''" service0]
    init5 client1 sync5 found5 send5 [of dm_b]
  have r5: "fst (sendMessage sdk_send_fails ''0xABC0'' ''hi'' service0)
              = Inr (failure ''network down'')"
    by auto

  have none6: "find_conversation sdk_send_fails ''0xFFF0''
                 (service1\<lparr>trace := trace service1 @ [ConversationsSync]\<rparr>)
                 = (Inr None, service_scanned)"
    by (simp add: sdk_send_fails_def ev)
  have cap6: "capability sdk_send_fails service0 ''0xFFF0'' = Inr [''0xfff0'' \<mapsto> True]"
    by (simp add: sdk_send_fails_def capability_def sdk0_simps lower_fff0)
  have new6: "conversations_newDm sdk_send_fails 7 ''0xFFF0'' = Inr dm_new"
    by (simp add: sdk_send_fails_def sdk0_def)
  from sendMessage_never_raises [of sdk_send_fails "''0xFFF0''" "''hi''" service0]
    init5 client1 sync5 none6 cap6 new6 send5 [of dm_new]
  have r6: "fst (sendMessage sdk_send_fails ''0xFFF0'' ''hi'' service0)
              = Inr (failure ''network down'')"
    by (auto simp: lower_fff0)

  have none7: "find_conversation sdk0 ''0xEEE0''
                 (service1\<lparr>trace := trace service1 @ [ConversationsSync]\<rparr>)
                 = (Inr None, service_scanned)"
    unfolding synced_eq by (rule find_none0)
  have cap7: "capability sdk0 service0 ''0xEEE0'' = Inr [''0xeee0'' \<mapsto> False]"
    by (simp add: capability_def sdk0_simps lower_eee0)
  from sendMessage_never_raises [of sdk0 "''0xEEE0''" "''hi''" service0]
    init0 client1 sync0 none7 cap7
  have r7: "fst (sendMessage sdk0 ''0xEEE0'' ''hi'' service0)
              = Inr (failure ''Address 0xEEE0 cannot receive XMTP messages'')"
    by (auto simp: lower_eee0)

  have init8: "initializeClient sdk_newDm_fails service0 = (Inr (), service1)"
    by (simp add: sdk_newDm_fails_def ev)
  have sync8: "conversations_sync sdk_newDm_fails 7 = Inr ()"
    by (simp add: sdk_newDm_fails_def sdk0_def)
  have none8: "find_conversation sdk_newDm_fails ''0xFFF0''
                 (service1\<lparr>trace := trace service1 @ [ConversationsSync]\<rparr>)
                 = (Inr None, service_scanned)"
    by (simp add: sdk_newDm_fails_def ev)
  have cap8: "capability sdk_newDm_fails service0 ''0xFFF0'' = Inr [''0xfff0'' \<mapsto> True]"
    by (simp add: sdk_newDm_fails_def capability_def sdk0_simps lower_fff0)
  have new8: "conversations_newDm sdk_newDm_fails 7 ''0xFFF0''
                = Inl (ErrorObject ''Error'' ''inbox not found'')"
    by (simp add: sdk_newDm_fails_def new_Error_def)
  from sendMessage_never_raises [of sdk_newDm_fails "''0xFFF0''" "''hi''" service0]
    init8 client1 sync8 none8 cap8 new8
  have r8: "fst (sendMessage sdk_newDm_fails ''0xFFF0'' ''hi'' service0)
       = Inr (failure (''Cannot create conversation with 0xFFF0. ''
           @ ''They may need to be active on XMTP first. Original error: inbox not found''))"
    by (auto simp: lower_fff0)

  have tw: "throws_with_message sdk_send_fails"
    by (simp add: throws_with_message_def sdk_send_fails_def sdk0_def new_Error_def)
  from con r1 sync2 r2 dm3 r3 cap4 r4 send5 [of dm_b] r5 send5 [of dm_new] r6 r7 r8 tw
  show ?thesis by (intro conjI)
qed

text \<open>
  The error string can be empty, and an exception need not end in a failure: when \<open>sync\<close>
  throws \<open>new Error("")\<close> the result carries \<open>error: ""\<close>, and when an inbox-state lookup
  of the scan throws, the message is still sent and the result is a success.
\<close>

theorem sendMessage_empty_error:
  "conversations_sync sdk_sync_fails 7 = Inl (ErrorObject ''Error'' [])
   \<and> fst (sendMessage sdk_sync_fails ''0xABC0'' ''hi'' service0)
       = Inr \<lparr>success = False, messageId = None, error = Some []\<rparr>
   \<and> inboxStateFromInboxIds sdk_lookup_fails 7 [''inbox-a'']
       = Inl (ErrorObject ''Error'' ''lookup failed'')
   \<and> fst (sendMessage sdk_lookup_fails ''0xFFF0'' ''hi'' service0)
       = Inr \<lparr>success = True, messageId = Some ''msg-1'', error = None\<rparr>"
  by (simp add: sdk_sync_fails_def sdk_lookup_fails_def sdk0_simps run_defs new_Error_def)

text \<open>
  Claim C3 has every successful result carry \<open>messageId\<close>. The service reads the id as
  \<open>sentMessage.id\<close>, while \<open>send\<close> of the SDK resolves to the id itself, a string: the read
  gives \<open>undefined\<close>. With such an SDK the message below is sent, and the result is
  \<open>{success: true, messageId: undefined}\<close>: a success without \<open>messageId\<close>.
\<close>

theorem sendMessage_success_without_id:
  "conversation_send sdk_send_id dm_new ''hi'' = Inr (SentId ''msg-1'')
   \<and> filter is_send (trace (snd (sendMessage sdk_send_id ''0xFFF0'' ''hi'' service0)))
       = [ConversationSend dm_new ''hi'']
   \<and> fst (sendMessage sdk_send_id ''0xFFF0'' ''hi'' service0)
       = Inr \<lparr>success = True, messageId = None, error = None\<rparr>"
  by (simp add: sdk_send_id_def sdk0_simps run_defs)

text \<open>
  Claim C4 has \<open>sendMessage\<close> use the existing conversation of a recipient whose address
  an inbox of a known conversation lists. The scan reads the members as
  \<open>for (const member of conv.members)\<close>, while \<open>members\<close> of an SDK conversation is a
  method: the loop throws a \<open>TypeError\<close> at the first conversation, the catch of
  \<open>getInboxIdFromAddress\<close> turns it into \<open>null\<close>, and the existing conversation is never
  looked up. Below, \<open>inbox-b\<close> lists the address and has the one-to-one conversation
  \<open>dm_b\<close>; \<open>sendMessage\<close> checks the capability, creates a conversation and sends through
  the new one.
\<close>

theorem existing_conversation_not_used:
  "conversations_list sdk_members_method 7 = Inr [group_method]
   \<and> members group_method = MembersMethod [member_a, member_b]
   \<and> has_identifier sdk_members_method 7 ''0xABC0'' member_b
   \<and> getDmByInboxId sdk_members_method 7 (inboxId member_b) = Inr (Some dm_b)
   \<and> fst (getInboxIdFromAddress sdk_members_method ''0xABC0'' service_synced) = Inr None
   \<and> filter is_capability_check
        (trace (snd (sendMessage sdk_members_method ''0xABC0'' ''hi'' service0)))
       = [capability_event service0 ''0xABC0'']
   \<and> filter is_creation
        (trace (snd (sendMessage sdk_members_method ''0xABC0'' ''hi'' service0)))
       = [NewDm ''0xABC0'']
   \<and> filter is_send
        (trace (snd (sendMessage sdk_members_method ''0xABC0'' ''hi'' service0)))
       = [ConversationSend dm_new ''hi'']"
  by (simp add: sdk_members_method_def group_method_def service_synced_def sdk0_simps run_defs
        has_identifier_def capability_event_def)

text \<open>
  Claim C5. The capability check is reached exactly when initialisation and \<open>sync\<close>
  succeed and the lookup finds no conversation. If it then reports that the address
  cannot receive messages (its map gives anything but \<open>true\<close> for the lower-cased
  address), \<open>sendMessage\<close> returns \<open>{success: false, error}\<close> with the error
  \<open>Address <recipient> cannot receive XMTP messages\<close>, and the call makes no creation
  call and no send call.
\<close>

theorem sendMessage_cannot_receive:
  assumes init: "initializeClient sdk s = (Inr (), s1)" and cl: "client s1 = Some c"
    and sync: "conversations_sync sdk c = Inr ()"
    and none: "find_conversation sdk addr (s1\<lparr>trace := trace s1 @ [ConversationsSync]\<rparr>)
                 = (Inr None, s3)"
    and cap: "capability sdk s addr = Inr mp"
    and no: "mp (toLowerCase addr) \<noteq> Some True"
  shows "\<exists>s'. sendMessage sdk addr msg s =
            (Inr \<lparr>success = False, messageId = None,
                  error = Some (''Address '' @ addr @ '' cannot receive XMTP messages'')\<rparr>, s')
          \<and> capability_event s addr \<in> set (new_events s s')
          \<and> list_all (\<lambda>ev. \<not> is_creation ev \<and> \<not> is_send ev) (new_events s s')"
proof -
  note fr = sendMessage_resolution_frame [OF init cl none]
  from fr(3) obtain ext where ext: "trace s3 = trace s @ ext" "list_all quiet ext" by blast
  let ?e = "''Address '' @ addr @ '' cannot receive XMTP messages''"
  let ?s' = "s3\<lparr>trace := trace s3 @ [capability_event s addr, failure_log addr ?e]\<rparr>"
  have "capability sdk s3 addr = Inr mp" "capability_event s3 addr = capability_event s addr"
    using cap fr(2) by (simp_all add: capability_def capability_event_def)
  then have "create_conversation sdk addr s3
      = (Inl (new_Error ?e), s3\<lparr>trace := trace s3 @ [capability_event s addr]\<rparr>)"
    using no by (simp add: create_conversation_eval [OF fr(1)])
  then have run: "sendMessage sdk addr msg s = (Inr (failure ?e), ?s')"
    by (simp add: sendMessage_fallback_run [OF init cl sync none] new_Error_def)
  have ne: "new_events s ?s' = ext @ [capability_event s addr, failure_log addr ?e]"
    by (rule new_events_append) (simp add: ext)
  have "list_all (\<lambda>ev. \<not> is_creation ev \<and> \<not> is_send ev) ext"
    using ext(2) by (induction ext) (auto simp: quiet_def)
  then have "list_all (\<lambda>ev. \<not> is_creation ev \<and> \<not> is_send ev) (new_events s ?s')"
    unfolding ne by (simp add: capability_event_def failure_log_def)
  moreover have "capability_event s addr \<in> set (new_events s ?s')"
    unfolding ne by simp
  ultimately show ?thesis using run by (auto simp: failure_def simp del: append.simps)
qed

theorem sendMessage_cannot_receive_witness:
  "find_conversation sdk0 ''0xEEE0'' service_synced = (Inr None, service_scanned)
   \<and> capability sdk0 service0 ''0xEEE0'' = Inr [''0xeee0'' \<mapsto> False]
   \<and> fst (sendMessage sdk0 ''0xEEE0'' ''hi'' service0)
       = Inr \<lparr>success = False, messageId = None,
              error = Some ''Address 0xEEE0 cannot receive XMTP messages''\<rparr>"
proof -
  have none: "find_conversation sdk0 ''0xEEE0''
                (service1\<lparr>trace := trace service1 @ [ConversationsSync]\<rparr>)
                = (Inr None, service_scanned)"
    unfolding synced_eq by (rule find_none0)
  have cap: "capability sdk0 service0 ''0xEEE0'' = Inr [''0xeee0'' \<mapsto> False]"
    by (simp add: capability_def sdk0_simps toLowerCase_def lower_char_def
          upper_letters_def lower_letters_def)
  have no: "[''0xeee0'' \<mapsto> False] (toLowerCase ''0xEEE0'') \<noteq> Some True"
    by (simp add: toLowerCase_def lower_char_def upper_letters_def lower_letters_def)
  from sendMessage_cannot_receive [OF init0 client1 sync0 none cap no, of "''hi''"]
  have "fst (sendMessage sdk0 ''0xEEE0'' ''hi'' service0)
       = Inr \<lparr>success = False, messageId = None,
              error = Some ''Address 0xEEE0 cannot receive XMTP messages''\<rparr>"
    by auto
  with find_none0 cap show ?thesis by simp
qed

text \<open>
  Claim C6. Under the same conditions, if the capability check reports that the address
  can receive messages, \<open>sendMessage\<close> calls \<open>newDm\<close> with the raw address, once. If that
  throws \<open>e\<close>, the result is \<open>{success: false, error}\<close> with the error
  \<open>Cannot create conversation with <recipient>. They may need to be active on XMTP
  first. Original error: <e.message>\<close> and nothing is sent; if it returns a conversation,
  the message is sent through that conversation and the result is that of the send.
\<close>

theorem sendMessage_creates_conversation:
  assumes init: "initializeClient sdk s = (Inr (), s1)" and cl: "client s1 = Some c"
    and sync: "conversations_sync sdk c = Inr ()"
    and none: "find_conversation sdk addr (s1\<lparr>trace := trace s1 @ [ConversationsSync]\<rparr>)
                 = (Inr None, s3)"
    and cap: "capability sdk s addr = Inr mp"
    and yes: "mp (toLowerCase addr) = Some True"
  shows "\<exists>s'. sendMessage sdk addr msg s =
            (Inr (case conversations_newDm sdk c addr of
                    Inl e \<Rightarrow>
                      \<lparr>success = False, messageId = None,
                       error = Some (''Cannot create conversation with '' @ addr
                         @ ''. They may need to be active on XMTP first. Original error: ''
                         @ thrown_message e)\<rparr>
                  | Inr cv \<Rightarrow> send_result sdk cv msg), s')
          \<and> filter is_creation (new_events s s') = [NewDm addr]
          \<and> filter is_send (new_events s s') =
              (case conversations_newDm sdk c addr of
                 Inl e \<Rightarrow> []
               | Inr cv \<Rightarrow> [ConversationSend cv msg])"
proof -
  note fr = sendMessage_resolution_frame [OF init cl none]
  from fr(3) obtain ext where ext: "trace s3 = trace s @ ext" "list_all quiet ext" by blast
  have fs: "filter is_send ext = []" and fc: "filter is_creation ext = []"
    using ext(2) by (induction ext) (auto simp: quiet_def)
  have cap3: "capability sdk s3 addr = Inr mp"
    and ev3: "capability_event s3 addr = capability_event s addr"
    using cap fr(2) by (simp_all add: capability_def capability_event_def)
  let ?s4 = "s3\<lparr>trace := trace s3 @ [capability_event s addr, NewDm addr]\<rparr>"
  show ?thesis
  proof (cases "conversations_newDm sdk c addr")
    case (Inl e)
    let ?m = "''Cannot create conversation with '' @ addr
                @ ''. They may need to be active on XMTP first. Original error: ''
                @ thrown_message e"
    let ?s' = "?s4\<lparr>trace := trace ?s4 @ [failure_log addr ?m]\<rparr>"
    have "create_conversation sdk addr s3 = (Inl (new_Error ?m), ?s4)"
      using cap3 ev3 yes Inl by (simp add: create_conversation_eval [OF fr(1)])
    then have run: "sendMessage sdk addr msg s = (Inr (failure ?m), ?s')"
      by (simp add: sendMessage_fallback_run [OF init cl sync none] new_Error_def)
    have ne: "new_events s ?s'
                = ext @ [capability_event s addr, NewDm addr, failure_log addr ?m]"
      by (rule new_events_append) (simp add: ext)
    have "filter is_creation (new_events s ?s') = [NewDm addr]"
      and "filter is_send (new_events s ?s') = []"
      unfolding ne using fs fc by (simp_all add: capability_event_def failure_log_def)
    with run Inl show ?thesis by (auto simp: failure_def simp del: append.simps)
  next
    case (Inr cv)
    let ?s' = "?s4\<lparr>trace := trace ?s4 @ ConversationSend cv msg # send_logs sdk addr cv msg\<rparr>"
    have "create_conversation sdk addr s3 = (Inr cv, ?s4)"
      using cap3 ev3 yes Inr by (simp add: create_conversation_eval [OF fr(1)])
    then have run: "sendMessage sdk addr msg s = (Inr (send_result sdk cv msg), ?s')"
      by (simp add: sendMessage_fallback_run [OF init cl sync none])
    have ne: "new_events s ?s'
                = ext @ [capability_event s addr, NewDm addr, ConversationSend cv msg]
                      @ send_logs sdk addr cv msg"
      by (rule new_events_append) (simp add: ext)
    have "filter is_creation (new_events s ?s') = [NewDm addr]"
      and "filter is_send (new_events s ?s') = [ConversationSend cv msg]"
      unfolding ne using fs fc
      by (simp_all add: capability_event_def send_logs_def failure_log_def split: sum.splits)
    with run Inr show ?thesis by (auto simp del: append.simps)
  qed
qed

theorem sendMessage_creates_conversation_witness:
  "fst (sendMessage sdk0 ''0xFFF0'' ''hi'' service0)
     = Inr \<lparr>success = True, messageId = Some ''msg-1'', error = None\<rparr>
   \<and> fst (sendMessage sdk_newDm_fails ''0xFFF0'' ''hi'' service0)
     = Inr \<lparr>success = False, messageId = None,
            error = Some (''Cannot create conversation with 0xFFF0. ''
              @ ''They may need to be active on XMTP first. Original error: inbox not found'')\<rparr>"
proof -
  have none: "find_conversation sdk0 ''0xFFF0''
                (service1\<lparr>trace := trace service1 @ [ConversationsSync]\<rparr>)
                = (Inr None, service_scanned)"
    unfolding synced_eq by (rule find_none1)
  have cap: "capability sdk0 service0 ''0xFFF0'' = Inr [''0xfff0'' \<mapsto> True]"
    by (simp add: capability_def sdk0_simps lower_fff0)
  have yes: "[''0xfff0'' \<mapsto> True] (toLowerCase ''0xFFF0'') = Some True"
    by (simp add: lower_fff0)
  have new: "conversations_newDm sdk0 7 ''0xFFF0'' = Inr dm_new"
    by (simp add: sdk0_def)
  have res: "send_result sdk0 dm_new ''hi''
               = \<lparr>success = True, messageId = Some ''msg-1'', error = None\<rparr>"
    by (simp add: send_result_def sent_id_def sdk0_def)
  from sendMessage_creates_conversation [OF init0 client1 sync0 none cap yes, of "''hi''"]
  have a: "fst (sendMessage sdk0 ''0xFFF0'' ''hi'' service0)
             = Inr \<lparr>success = True, messageId = Some ''msg-1'', error = None\<rparr>"
    unfolding new by (auto simp: res)
  have init': "initializeClient sdk_newDm_fails service0 = (Inr (), service1)"
    by (simp add: sdk_newDm_fails_def initializeClient_def sdk0_simps io_defs createSigner_def
          createUser_def getEncryptionKeyFromHex_def startsWith_def)
  have sync': "conversations_sync sdk_newDm_fails 7 = Inr ()"
    by (simp add: sdk_newDm_fails_def sdk0_def)
  have none': "find_conversation sdk_newDm_fails ''0xFFF0''
                (service1\<lparr>trace := trace service1 @ [ConversationsSync]\<rparr>)
                = (Inr None, service_scanned)"
    unfolding synced_eq
    by (simp add: sdk_newDm_fails_def service_synced_def service_scanned_def sdk0_simps run_defs)
  have cap': "capability sdk_newDm_fails service0 ''0xFFF0'' = Inr [''0xfff0'' \<mapsto> True]"
    by (simp add: sdk_newDm_fails_def capability_def sdk0_simps lower_fff0)
  have new': "conversations_newDm sdk_newDm_fails 7 ''0xFFF0''
                = Inl (new_Error ''inbox not found'')"
    by (simp add: sdk_newDm_fails_def)
  from sendMessage_creates_conversation [OF init' client1 sync' none' cap' yes, of "''hi''"]
  have b: "fst (sendMessage sdk_newDm_fails ''0xFFF0'' ''hi'' service0)
     = Inr \<lparr>success = False, messageId = None,
            error = Some (''Cannot create conversation with 0xFFF0. ''
              @ ''They may need to be active on XMTP first. Original error: inbox not found'')\<rparr>"
    unfolding new' by (auto simp: new_Error_def)
  from a b show ?thesis by blast
qed

text \<open>
  Claim C10. If the body of \<open>getInboxIdFromAddress\<close> throws \<open>e\<close> (listing the
  conversations or reading an inbox state failed), \<open>getInboxIdFromAddress\<close> logs \<open>e\<close> and
  returns \<open>null\<close>; \<open>sendMessage\<close> then goes on to the capability check, and when the check,
  the creation and the send succeed it returns the success of that send, not an error
  of the resolution.
\<close>

theorem resolution_failure_falls_through:
  assumes init: "initializeClient sdk s = (Inr (), s1)" and cl: "client s1 = Some c"
    and sync: "conversations_sync sdk c = Inr ()"
    and thrown: "getInboxIdFromAddress_try sdk addr (s1\<lparr>trace := trace s1 @ [ConversationsSync]\<rparr>)
                   = (Inl e, s3)"
  shows "getInboxIdFromAddress sdk addr (s1\<lparr>trace := trace s1 @ [ConversationsSync]\<rparr>)
           = (Inr None,
              s3\<lparr>trace := trace s3 @
                [ConsoleError [Str (''Error getting inbox ID for address '' @ addr @ '':''),
                               Thrown e]]\<rparr>)
       \<and> (\<exists>r s' rest.
             sendMessage sdk addr msg s = (Inr r, s')
           \<and> trace s' = trace s3 @
                [ConsoleError [Str (''Error getting inbox ID for address '' @ addr @ '':''),
                               Thrown e],
                 capability_event s addr] @ rest
           \<and> (\<forall>mp cv. capability sdk s addr = Inr mp \<and> mp (toLowerCase addr) = Some True
                  \<and> conversations_newDm sdk c addr = Inr cv \<longrightarrow> r = send_result sdk cv msg))"
proof -
  let ?s2 = "s1\<lparr>trace := trace s1 @ [ConversationsSync]\<rparr>"
  let ?err = "ConsoleError [Str (''Error getting inbox ID for address '' @ addr @ '':''),
                            Thrown e]"
  let ?s3 = "s3\<lparr>trace := trace s3 @ [?err]\<rparr>"
  have g: "getInboxIdFromAddress sdk addr ?s2 = (Inr None, ?s3)"
    using thrown by (rule getInboxIdFromAddress_caught)
  have c2: "client ?s2 = Some c" using cl by simp
  from c2 g have q: "quiet_step ?s2 ?s3" by (rule getInboxIdFromAddress_quiet)
  have c3: "client ?s3 = Some c" using quiet_stepD(1) [OF q] cl by simp
  have none: "find_conversation sdk addr ?s2 = (Inr None, ?s3)"
    by (simp add: find_conversation_after [OF g c3] truthy_def)
  note fr = sendMessage_resolution_frame [OF init cl none]
  have cap3: "capability sdk ?s3 addr = capability sdk s addr"
    and ev3: "capability_event ?s3 addr = capability_event s addr"
    using fr(2) by (simp_all add: capability_def capability_event_def)
  note run = sendMessage_fallback_run [OF init cl sync none, of msg]
  note cc = create_conversation_eval [OF c3, of sdk addr]
  have "\<exists>r s' rest.
             sendMessage sdk addr msg s = (Inr r, s')
           \<and> trace s' = trace s3 @ [?err, capability_event s addr] @ rest
           \<and> (\<forall>mp cv. capability sdk s addr = Inr mp \<and> mp (toLowerCase addr) = Some True
                  \<and> conversations_newDm sdk c addr = Inr cv \<longrightarrow> r = send_result sdk cv msg)"
  proof (cases "capability sdk s addr")
    case (Inl x)
    then show ?thesis unfolding run cc cap3 ev3 by simp
  next
    case (Inr mp)
    show ?thesis
    proof (cases "mp (toLowerCase addr) = Some True")
      case False
      with Inr show ?thesis unfolding run cc cap3 ev3 by simp
    next
      case True
      with Inr show ?thesis unfolding run cc cap3 ev3
        by (cases "conversations_newDm sdk c addr") simp_all
    qed
  qed
  with g show ?thesis by blast
qed

theorem resolution_failure_falls_through_witness:
  "getInboxIdFromAddress_try sdk_lookup_fails ''0xFFF0'' service_synced
     = (Inl (new_Error ''lookup failed''), service_scan_failed)
   \<and> fst (getInboxIdFromAddress sdk_lookup_fails ''0xFFF0'' service_synced) = Inr None
   \<and> fst (sendMessage sdk_lookup_fails ''0xFFF0'' ''hi'' service0)
       = Inr \<lparr>success = True, messageId = Some ''msg-1'', error = None\<rparr>"
proof -
  have init': "initializeClient sdk_lookup_fails service0 = (Inr (), service1)"
    by (simp add: sdk_lookup_fails_def initializeClient_def sdk0_simps io_defs createSigner_def
          createUser_def getEncryptionKeyFromHex_def startsWith_def)
  have sync': "conversations_sync sdk_lookup_fails 7 = Inr ()"
    by (simp add: sdk_lookup_fails_def sdk0_def)
  have thrown: "getInboxIdFromAddress_try sdk_lookup_fails ''0xFFF0''
                  (service1\<lparr>trace := trace service1 @ [ConversationsSync]\<rparr>)
                  = (Inl (new_Error ''lookup failed''), service_scan_failed)"
    unfolding synced_eq
    by (simp add: sdk_lookup_fails_def service_synced_def service_scan_failed_def sdk0_simps
          run_defs)
  have cap: "capability sdk_lookup_fails service0 ''0xFFF0'' = Inr [''0xfff0'' \<mapsto> True]"
    by (simp add: sdk_lookup_fails_def capability_def sdk0_simps lower_fff0)
  have new: "conversations_newDm sdk_lookup_fails 7 ''0xFFF0'' = Inr dm_new"
    by (simp add: sdk_lookup_fails_def sdk0_def)
  have res: "send_result sdk_lookup_fails dm_new ''hi''
               = \<lparr>success = True, messageId = Some ''msg-1'', error = None\<rparr>"
    by (simp add: send_result_def sent_id_def sdk_lookup_fails_def sdk0_def)
  from resolution_failure_falls_through [OF init' client1 sync' thrown, of "''hi''"]
  have "fst (getInboxIdFromAddress sdk_lookup_fails ''0xFFF0''
               (service1\<lparr>trace := trace service1 @ [ConversationsSync]\<rparr>)) = Inr None"
    and "fst (sendMessage sdk_lookup_fails ''0xFFF0'' ''hi'' service0)
           = Inr (send_result sdk_lookup_fails dm_new ''hi'')"
    using cap new by (auto simp: lower_fff0)
  with thrown res show ?thesis by (simp add: synced_eq)
qed

subsection \<open>Bus listener\<close>

text \<open>
  Claim C1 has the handler pass each message that parses as JSON to \<open>sendMessage\<close> and
  log the result. The handler does not: on such a message \<open>handleMessage\<close> prints the raw
  text and the parsed object and does nothing else. The console lines below are all it
  produces, and no message is sent.
\<close>

theorem handleMessage_only_logs:
  "parse0 payload0 = Inr request0
   \<and> handleMessage parse0 stringify0 ''2025-01-01T00:00:00.000Z'' payload0
        ''ethereum-messages'' []
     = [ConsoleLog [Str (glyph_envelope
          @ '' ==================== ETHEREUM MESSAGE ===================='')],
        ConsoleLog [Str (glyph_clock @ '' Received: 2025-01-01T00:00:00.000Z'')],
        ConsoleLog [Str (glyph_antenna @ '' Channel: ethereum-messages'')],
        ConsoleLog [Str (glyph_lens @ '' RAW MESSAGE:''), Str payload0],
        ConsoleLog [Str (glyph_lens @ '' PARSED MESSAGE:''), Str payload0],
        ConsoleLog [Str (''========================================================''
          @ [CHR 0x0A])]]
   \<and> filter is_send (handleMessage parse0 stringify0 ''2025-01-01T00:00:00.000Z'' payload0
        ''ethereum-messages'' []) = []"
  by (simp add: handleMessage_def parse0_def stringify0_def)

end
